theory Spec2Isabelle
  imports Complex_Main "HOL-Library.Word"
begin

unbundle bit_operations_syntax

section \<open>Data model\<close>

text \<open>
  The class \<open>Node\<close> of parser.py has three fields: \<open>opcode\<close> (a string), \<open>value\<close>
  (the payload) and \<open>kids\<close> (the tuple of the remaining constructor arguments). The
  constructor calls of the grammar actions put \<open>None\<close>, a string, an integer or another
  node into \<open>value\<close>, and strings or nodes into \<open>kids\<close>, so one type of Python values
  holds them all. \<open>PyNode opcode value kids\<close> is \<open>Node(opcode, value, *kids)\<close>.
  Python integers are unbounded: \<open>int\<close>.
\<close>

datatype pyval =
    PyNone
  | PyStr string
  | PyInt int
  | PyNode (opcode: string) (nvalue: pyval) (kids: "pyval list")

text \<open>
  The token types named by the grammar of parser.py: those the scanner delivers, and
  \<open>UMINUS\<close>, which parser.py adds to \<open>tokens\<close> for the precedence table and which is
  never scanned. A token carries its type and its value (\<open>p[i]\<close> in a grammar action).
\<close>

datatype tok_type =
    IDENT | NUMBER | PRINT
  | EQ | SEMICOLON | LPAREN | RPAREN
  | PLUS | MINUS | STAR | SLASH | PERCENT
  | AMP | BAR | CARET | LTLT | GTGT
  | TILDE | UMINUS

datatype token = Token (ttype: tok_type) (tvalue: pyval)

text \<open>
  What leaves a function other than by \<open>return\<close>.
  \<open>SystemExit line c\<close> is \<open>sys.exit(c)\<close>, reached in the source right after
  \<open>print(line)\<close>; the line written to standard output travels with it.
  The others are the uncaught Python exceptions of the modelled operations;
  \<open>SyntaxError t\<close> is raised by \<open>p_error\<close> with the type of the offending token.
  \<open>OperandError\<close> stands for the exception raised when an arithmetic operand is not an
  integer: the operator itself or the \<open>&\<close> of \<open>truncate_number\<close> raises there
  (a \<open>TypeError\<close> in all cases but some string formats under \<open>%\<close>), and no value is
  returned.
\<close>

datatype fault =
    SystemExit string int
  | ZeroDivisionError
  | ValueError
  | KeyError
  | IndexError
  | TypeError
  | AttributeError
  | OperandError
  | SyntaxError tok_type

type_synonym variables = "pyval \<rightharpoonup> pyval"

section \<open>The interpreter\<close>

subsection \<open>Truncation\<close>

text \<open>
  \<^verbatim>\<open>
  def truncate_number(num):
      num = num & 0xffffffffffffffff
      if (num & (1 << 63)) != 0:
          num = num - (1 << 64)
      return num
  \<close>
  \<open>0xffffffffffffffff\<close> is 18446744073709551615; \<open>1 << k\<close> is \<open>push_bit k 1\<close>.
\<close>

definition truncate_number :: "int \<Rightarrow> int" where
  "truncate_number num =
     (let num = num AND 18446744073709551615 in
      if (num AND push_bit 63 1) \<noteq> 0 then num - push_bit 64 1 else num)"

subsection \<open>Operators\<close>

text \<open>
  The two dictionaries of lambdas of \<open>evaluate_expression\<close>, applied to integers.
  Python's \<open>//\<close> and \<open>%\<close> raise \<open>ZeroDivisionError\<close> on a zero divisor and round
  towards minus infinity otherwise, as \<open>div\<close> and \<open>mod\<close> on \<open>int\<close> do; \<open><<\<close> and
  \<open>>>\<close> raise \<open>ValueError\<close> on a negative shift count. A key that is not in the
  dictionary gives \<open>None\<close> here and \<open>KeyError\<close> in the evaluator. The integers of
  the model are unbounded; the memory an interpreter needs for the exact result of a
  shift by a very large count is not modelled.
\<close>

definition binop_table :: "string \<Rightarrow> (int \<Rightarrow> int \<Rightarrow> fault + int) option" where
  "binop_table k =
     (if k = ''+'' then Some (\<lambda>x y. Inr (x + y))
      else if k = ''-'' then Some (\<lambda>x y. Inr (x - y))
      else if k = ''*'' then Some (\<lambda>x y. Inr (x * y))
      else if k = ''/'' then Some (\<lambda>x y. if y = 0 then Inl ZeroDivisionError else Inr (x div y))
      else if k = ''%'' then Some (\<lambda>x y. if y = 0 then Inl ZeroDivisionError else Inr (x mod y))
      else if k = ''&'' then Some (\<lambda>x y. Inr (x AND y))
      else if k = ''|'' then Some (\<lambda>x y. Inr (x OR y))
      else if k = ''^'' then Some (\<lambda>x y. Inr (x XOR y))
      else if k = ''<<'' then Some (\<lambda>x y. if y < 0 then Inl ValueError else Inr (push_bit (nat y) x))
      else if k = ''>>'' then Some (\<lambda>x y. if y < 0 then Inl ValueError else Inr (drop_bit (nat y) x))
      else None)"

definition unop_table :: "string \<Rightarrow> (int \<Rightarrow> int) option" where
  "unop_table k =
     (if k = ''-'' then Some (\<lambda>x. - x)
      else if k = ''~'' then Some (\<lambda>x. NOT x)
      else None)"

text \<open>
  A dictionary lookup hashes its key: a \<open>Node\<close> defines \<open>__eq__\<close> and no \<open>__hash__\<close>,
  so it is unhashable and the lookup raises \<open>TypeError\<close>; \<open>None\<close> and integers are
  hashable and simply absent from a dictionary keyed by operator strings.
\<close>

fun hashable :: "pyval \<Rightarrow> bool" where
  "hashable (PyNode oc v ks) = False"
| "hashable v = True"

definition lookup_binop :: "pyval \<Rightarrow> fault + (int \<Rightarrow> int \<Rightarrow> fault + int)" where
  "lookup_binop k =
     (case k of
        PyNode oc v ks \<Rightarrow> Inl TypeError
      | PyStr s \<Rightarrow> (case binop_table s of None \<Rightarrow> Inl KeyError | Some f \<Rightarrow> Inr f)
      | _ \<Rightarrow> Inl KeyError)"

definition lookup_unop :: "pyval \<Rightarrow> fault + (int \<Rightarrow> int)" where
  "lookup_unop k =
     (case k of
        PyNode oc v ks \<Rightarrow> Inl TypeError
      | PyStr s \<Rightarrow> (case unop_table s of None \<Rightarrow> Inl KeyError | Some f \<Rightarrow> Inr f)
      | _ \<Rightarrow> Inl KeyError)"

text \<open>
  Applying the looked-up lambda and then \<open>truncate_number\<close>. With two integers the
  lambda runs on them; with any other operand no value comes back (see \<open>OperandError\<close>).
\<close>

definition apply_binop :: "(int \<Rightarrow> int \<Rightarrow> fault + int) \<Rightarrow> pyval \<Rightarrow> pyval \<Rightarrow> fault + pyval" where
  "apply_binop f a b =
     (case (a, b) of
        (PyInt x, PyInt y) \<Rightarrow>
          (case f x y of Inl e \<Rightarrow> Inl e | Inr res \<Rightarrow> Inr (PyInt (truncate_number res)))
      | _ \<Rightarrow> Inl OperandError)"

definition apply_unop :: "(int \<Rightarrow> int) \<Rightarrow> pyval \<Rightarrow> fault + pyval" where
  "apply_unop f a =
     (case a of
        PyInt x \<Rightarrow> Inr (PyInt (truncate_number (f x)))
      | _ \<Rightarrow> Inl OperandError)"

subsection \<open>Rendering\<close>

text \<open>Python's \<open>str\<close> of an integer: decimal digits, with a leading minus sign.\<close>

fun digits_of :: "nat \<Rightarrow> string" where
  "digits_of n =
     (if n < 10 then [char_of (48 + n)]
      else digits_of (n div 10) @ [char_of (48 + n mod 10)])"

definition str_int :: "int \<Rightarrow> string" where
  "str_int i = (if i < 0 then CHR ''-'' # digits_of (nat (- i)) else digits_of (nat i))"

declare digits_of.simps [simp del]

text \<open>
  Python's \<open>repr\<close> of a string: double quotes when the text holds a single quote and no
  double quote, single quotes otherwise; the quote in use and the backslash are escaped,
  tab, newline and carriage return are written with their letter, and every other
  character that is not printable as a backslash, \<open>x\<close> and two hexadecimal digits.
  A \<open>char\<close> is read as the code point of the same number (below 256), where the
  non-printable ones are 0 to 31, 127 to 160 and 173.
\<close>

definition hex_digit :: "nat \<Rightarrow> char" where
  "hex_digit d = (if d < 10 then char_of (48 + d) else char_of (87 + d))"

definition repr_char :: "char \<Rightarrow> char \<Rightarrow> string" where
  "repr_char q c =
     (let n = (of_char c :: nat) in
      if c = q \<or> n = 92 then [char_of (92::nat), c]
      else if n = 9 then [char_of (92::nat), CHR ''t'']
      else if n = 10 then [char_of (92::nat), CHR ''n'']
      else if n = 13 then [char_of (92::nat), CHR ''r'']
      else if n < 32 \<or> (127 \<le> n \<and> n \<le> 160) \<or> n = 173
        then [char_of (92::nat), CHR ''x'', hex_digit (n div 16), hex_digit (n mod 16)]
      else [c])"

definition repr_str :: "string \<Rightarrow> string" where
  "repr_str s =
     (let q = (if char_of (39::nat) \<in> set s \<and> char_of (34::nat) \<notin> set s
               then char_of (34::nat) else char_of (39::nat))
      in [q] @ concat (map (repr_char q) s) @ [q])"

text \<open>The method \<open>join\<close> of the string of one space.\<close>

fun join_space :: "string list \<Rightarrow> string" where
  "join_space [] = []"
| "join_space [x] = x"
| "join_space (x # y # ys) = x @ '' '' @ join_space (y # ys)"

text \<open>
  \<open>repr\<close> of a value; for a node this is \<open>Node.__repr__\<close> of parser.py:
  \<^verbatim>\<open>
  return '({} {}{}{})'.format(self.opcode, repr(self.value),
                              '' if len(self.kids) == 0 else ' ',
                              ' '.join(repr(kid) for kid in self.kids))
  \<close>
  \<open>str\<close> differs from \<open>repr\<close> on strings only (the class has no \<open>__str__\<close>).
\<close>

fun py_repr :: "pyval \<Rightarrow> string" where
  "py_repr PyNone = ''None''"
| "py_repr (PyStr s) = repr_str s"
| "py_repr (PyInt i) = str_int i"
| "py_repr (PyNode oc v ks) =
     ''('' @ oc @ '' '' @ py_repr v @ (if length ks = 0 then [] else '' '')
       @ join_space (map py_repr ks) @ '')''"

definition py_str :: "pyval \<Rightarrow> string" where
  "py_str v = (case v of PyStr s \<Rightarrow> s | _ \<Rightarrow> py_repr v)"

subsection \<open>Expressions\<close>

text \<open>
  \<^verbatim>\<open>
  def evaluate_expression(variables, node):
      if node.opcode == 'var':
          if node.value not in variables.keys():
              print(f"Error: {node.value} is not defined")
              sys.exit(1)
          return variables[node.value]
      if node.opcode == 'num':
          return node.value
      if node.opcode == 'binop':
          res = {...}[node.value](evaluate_expression(variables, node.kids[0]),
                                  evaluate_expression(variables, node.kids[1]))
          return truncate_number(res)
      if node.opcode == 'unop':
          res = {...}[node.value](evaluate_expression(variables, node.kids[0]))
          return truncate_number(res)
  \<close>
  Python evaluates the subscription of the dictionary first, then the arguments from left
  to right, then the call. \<open>node.kids[i]\<close> raises \<open>IndexError\<close> on a tuple that is too
  short, a value that is not a node has no attribute \<open>opcode\<close>, and a node of any other
  opcode falls through all four tests, so that the function returns \<open>None\<close>.
\<close>

fun evaluate_expression :: "variables \<Rightarrow> pyval \<Rightarrow> fault + pyval" where
  "evaluate_expression variables (PyNode oc v ks) =
     (if oc = ''var'' then
        (if \<not> hashable v then Inl TypeError
         else case variables v of
                None \<Rightarrow> Inl (SystemExit (''Error: '' @ py_str v @ '' is not defined'') 1)
              | Some x \<Rightarrow> Inr x)
      else if oc = ''num'' then Inr v
      else if oc = ''binop'' then
        (case lookup_binop v of
           Inl e \<Rightarrow> Inl e
         | Inr f \<Rightarrow>
            (case ks of
               [] \<Rightarrow> Inl IndexError
             | l # ks' \<Rightarrow>
                (case evaluate_expression variables l of
                   Inl e \<Rightarrow> Inl e
                 | Inr a \<Rightarrow>
                    (case ks' of
                       [] \<Rightarrow> Inl IndexError
                     | r # ks'' \<Rightarrow>
                        (case evaluate_expression variables r of
                           Inl e \<Rightarrow> Inl e
                         | Inr b \<Rightarrow> apply_binop f a b)))))
      else if oc = ''unop'' then
        (case lookup_unop v of
           Inl e \<Rightarrow> Inl e
         | Inr f \<Rightarrow>
            (case ks of
               [] \<Rightarrow> Inl IndexError
             | x # ks' \<Rightarrow>
                (case evaluate_expression variables x of
                   Inl e \<Rightarrow> Inl e
                 | Inr a \<Rightarrow> apply_unop f a)))
      else Inr PyNone)"
| "evaluate_expression variables v = Inl AttributeError"

subsection \<open>Statements\<close>

text \<open>
  The interpreter's state: the dictionary \<open>variables\<close> and the lines written to standard
  output so far.
\<close>

record state =
  variables :: variables
  stdout :: "string list"

text \<open>
  \<^verbatim>\<open>
  def process_stmt(variables, node):
      if node.opcode == 'assign':
          variables[node.kids[0]] = evaluate_expression(variables, node.kids[1])
      else:
          print(evaluate_expression(variables, node.value))
  \<close>
  In the assignment the right-hand side runs first (\<open>node.kids[1]\<close>, then the call),
  then the target \<open>node.kids[0]\<close> is read and stored under, which hashes it.
  \<open>print\<close> writes \<open>str\<close> of its argument as one line.
\<close>

fun process_stmt :: "state \<Rightarrow> pyval \<Rightarrow> fault + state" where
  "process_stmt st (PyNode oc v ks) =
     (if oc = ''assign'' then
        (if length ks < 2 then Inl IndexError
         else case evaluate_expression (variables st) (ks ! 1) of
                Inl e \<Rightarrow> Inl e
              | Inr x \<Rightarrow>
                 (if \<not> hashable (ks ! 0) then Inl TypeError
                  else Inr (st\<lparr>variables := (variables st)(ks ! 0 \<mapsto> x)\<rparr>)))
      else
        (case evaluate_expression (variables st) v of
           Inl e \<Rightarrow> Inl e
         | Inr x \<Rightarrow> Inr (st\<lparr>stdout := stdout st @ [py_str x]\<rparr>)))"
| "process_stmt st v = Inl AttributeError"

subsection \<open>The driver\<close>

text \<open>
  A \<open>SystemExit\<close> has written its line before it was raised; an uncaught exception
  writes its traceback to standard error, which is not part of the state.
\<close>

fun fault_output :: "fault \<Rightarrow> string list" where
  "fault_output (SystemExit line c) = [line]"
| "fault_output e = []"

text \<open>
  The statement loop of \<open>main\<close>:
  \<^verbatim>\<open>
  while stmts.kids:
      process_stmt(variables, stmts.kids[0])
      stmts = stmts.kids[1]
  \<close>
  The result is the state reached and, when the loop was left by a fault, that fault.
  Nothing in \<open>main\<close> catches one, so it ends the process.
\<close>

fun run_statements :: "state \<Rightarrow> pyval \<Rightarrow> state \<times> fault option" where
  "run_statements st (PyNode oc v ks) =
     (case ks of
        [] \<Rightarrow> (st, None)
      | s # ks' \<Rightarrow>
         (case process_stmt st s of
            Inl e \<Rightarrow> (st\<lparr>stdout := stdout st @ fault_output e\<rparr>, Some e)
          | Inr st' \<Rightarrow>
             (case ks' of
                [] \<Rightarrow> (st', Some IndexError)
              | nxt # ks'' \<Rightarrow> run_statements st' nxt)))"
| "run_statements st v = (st, Some AttributeError)"

text \<open>
  The exit status of the process: 0 when \<open>main\<close> returns, the argument of \<open>sys.exit\<close>,
  and 1 after an uncaught exception.
\<close>

fun exit_status :: "fault option \<Rightarrow> int" where
  "exit_status None = 0"
| "exit_status (Some (SystemExit line c)) = c"
| "exit_status (Some e) = 1"

section \<open>The parser\<close>

subsection \<open>Grammar actions\<close>

text \<open>
  The bodies of the \<open>p_...\<close> functions; \<open>p1\<close>, \<open>p2\<close>, \<open>p3\<close> are \<open>p[1]\<close>, \<open>p[2]\<close>,
  \<open>p[3]\<close>. \<open>p_program\<close> builds \<open>Node('statements', None)\<close> and, for the production
  \<open>stmt program\<close>, sets its \<open>kids\<close> to \<open>(p[1], p[2])\<close>.
\<close>

definition p_program_empty :: pyval where
  "p_program_empty = PyNode ''statements'' PyNone []"

definition p_program :: "pyval \<Rightarrow> pyval \<Rightarrow> pyval" where
  "p_program p1 p2 = PyNode ''statements'' PyNone [p1, p2]"

definition p_stmt_assign :: "pyval \<Rightarrow> pyval \<Rightarrow> pyval" where
  "p_stmt_assign p1 p3 = PyNode ''assign'' (PyStr ''='') [p1, p3]"

definition p_stmt_print :: "pyval \<Rightarrow> pyval" where
  "p_stmt_print p3 = PyNode ''print'' p3 []"

definition p_expr_ident :: "pyval \<Rightarrow> pyval" where
  "p_expr_ident p1 = PyNode ''var'' p1 []"

definition p_expr_number :: "pyval \<Rightarrow> pyval" where
  "p_expr_number p1 = PyNode ''num'' p1 []"

definition p_expr_binop :: "pyval \<Rightarrow> pyval \<Rightarrow> pyval \<Rightarrow> pyval" where
  "p_expr_binop p1 p2 p3 = PyNode ''binop'' p2 [p1, p3]"

definition p_expr_unop :: "pyval \<Rightarrow> pyval \<Rightarrow> pyval" where
  "p_expr_unop p1 p2 = PyNode ''unop'' p1 [p2]"

definition p_expr_parens :: "pyval \<Rightarrow> pyval" where
  "p_expr_parens p2 = p2"

subsection \<open>Precedence\<close>

text \<open>
  The table \<open>precedence\<close>, lowest level first. A token of the \<open>n\<close>-th row has level
  \<open>n\<close>; a token in no row has the default \<open>('right', 0)\<close> of the parser generator.
\<close>

definition precedence :: "(string \<times> tok_type list) list" where
  "precedence =
     [(''left'', [BAR]),
      (''left'', [CARET]),
      (''left'', [AMP]),
      (''left'', [LTLT, GTGT]),
      (''left'', [PLUS, MINUS]),
      (''left'', [STAR, SLASH, PERCENT]),
      (''left'', [UMINUS]),
      (''left'', [TILDE])]"

fun level_from :: "nat \<Rightarrow> (string \<times> tok_type list) list \<Rightarrow> tok_type \<Rightarrow> string \<times> nat" where
  "level_from n [] t = (''right'', 0)"
| "level_from n ((a, ts) # rows) t = (if t \<in> set ts then (a, n) else level_from (Suc n) rows t)"

definition token_prec :: "tok_type \<Rightarrow> string \<times> nat" where
  "token_prec t = level_from 1 precedence t"

text \<open>
  The binary operator tokens of \<open>p_expr_binop\<close> and the prefix operator tokens of
  \<open>p_expr_unop\<close>. A production has the precedence of its last terminal, or of the token
  named by \<open>%prec\<close>: \<open>expr : expr OP expr\<close> that of \<open>OP\<close>,
  \<open>expr : MINUS expr %prec UMINUS\<close> and \<open>expr : UMINUS expr\<close> that of \<open>UMINUS\<close>,
  \<open>expr : TILDE expr\<close> that of \<open>TILDE\<close>.
\<close>

definition binary_op :: "tok_type \<Rightarrow> bool" where
  "binary_op t = (t \<in> {PLUS, MINUS, STAR, SLASH, PERCENT, AMP, BAR, CARET, LTLT, GTGT})"

definition prefix_op :: "tok_type \<Rightarrow> bool" where
  "prefix_op t = (t \<in> {MINUS, UMINUS, TILDE})"

definition binop_rule_prec :: "tok_type \<Rightarrow> string \<times> nat" where
  "binop_rule_prec op = token_prec op"

definition unop_rule_prec :: "tok_type \<Rightarrow> string \<times> nat" where
  "unop_rule_prec op = (if op = MINUS then token_prec UMINUS else token_prec op)"

text \<open>
  How the generator settles a state in which a production could be reduced and the next
  token shifted: reduce when the token's level is below the production's, or equal to it
  with the production left-associative; shift otherwise.
\<close>

definition prefers_reduce :: "string \<times> nat \<Rightarrow> tok_type \<Rightarrow> bool" where
  "prefers_reduce rule_prec la =
     (let (rprec, rlevel) = rule_prec; (sprec, slevel) = token_prec la
      in slevel < rlevel \<or> (slevel = rlevel \<and> rprec = ''left''))"

subsection \<open>The shift-reduce parser of the grammar\<close>

text \<open>
  parser.py hands its productions and the precedence table to \<open>yacc.yacc(start='program')\<close>
  and calls the resulting \<open>parser.parse\<close>. The table-driven LR engine is the library's; what
  parser.py fixes is the grammar
  \<^verbatim>\<open>
  program : | stmt program
  stmt    : assign | print
  assign  : IDENT EQ expr SEMICOLON
  print   : PRINT LPAREN expr RPAREN SEMICOLON
  expr    : IDENT | NUMBER | expr OP expr | MINUS expr %prec UMINUS
          | UMINUS expr | TILDE expr | LPAREN expr RPAREN
  \<close>
  (\<open>OP\<close> one of the ten binary operator tokens), the precedences and the actions. The
  parser is modelled as the shift-reduce automaton of this grammar on a stack of grammar
  symbols, top first: a token, an \<open>expr\<close> with its node, or a \<open>stmt\<close> with its node.
  The only states in which the grammar allows both a reduction and a shift are those with
  a complete \<open>expr OP expr\<close> or prefix operation on top and a binary operator as the next
  token; \<open>prefers_reduce\<close> decides them. A production whose right-hand side is complete
  with no alternative (\<open>IDENT\<close> or \<open>NUMBER\<close> as an expression, a closing parenthesis,
  a finished statement) is reduced together with the shift of its last token.
\<close>

datatype sym = TOK tok_type pyval | EXPR pyval | STMT pyval

text \<open>The tokens that can follow a complete expression.\<close>

definition follows_expr :: "tok_type \<Rightarrow> bool" where
  "follows_expr la = (binary_op la \<or> la = RPAREN \<or> la = SEMICOLON)"

text \<open>
  The reductions to \<open>expr\<close> made before the token \<open>la\<close> is shifted. A \<open>MINUS\<close> below
  the top expression is the binary operator when an expression lies below it, and the
  prefix operator otherwise.
\<close>

fun reduce_exprs :: "tok_type \<Rightarrow> sym list \<Rightarrow> sym list" where
  "reduce_exprs la (EXPR r # TOK op ov # EXPR l # rest) =
     (if binary_op op \<and> follows_expr la
         \<and> (if binary_op la then prefers_reduce (binop_rule_prec op) la else True)
      then reduce_exprs la (EXPR (p_expr_binop l ov r) # rest)
      else EXPR r # TOK op ov # EXPR l # rest)"
| "reduce_exprs la (EXPR e # TOK op ov # rest) =
     (if prefix_op op \<and> follows_expr la
         \<and> (if binary_op la then prefers_reduce (unop_rule_prec op) la else True)
      then reduce_exprs la (EXPR (p_expr_unop ov e) # rest)
      else EXPR e # TOK op ov # rest)"
| "reduce_exprs la st = st"

text \<open>
  Shifting the token \<open>Token t v\<close>, or \<open>None\<close> when the grammar does not allow it on this
  stack (a syntax error at this token).
\<close>

definition starts_stmt :: "sym list \<Rightarrow> tok_type \<Rightarrow> pyval \<Rightarrow> sym list option" where
  "starts_stmt st t v = (if t = IDENT \<or> t = PRINT then Some (TOK t v # st) else None)"

definition starts_expr :: "sym list \<Rightarrow> tok_type \<Rightarrow> pyval \<Rightarrow> sym list option" where
  "starts_expr st t v =
     (if t = IDENT then Some (EXPR (p_expr_ident v) # st)
      else if t = NUMBER then Some (EXPR (p_expr_number v) # st)
      else if prefix_op t \<or> t = LPAREN then Some (TOK t v # st)
      else None)"

definition after_expr :: "pyval \<Rightarrow> sym list \<Rightarrow> tok_type \<Rightarrow> pyval \<Rightarrow> sym list option" where
  "after_expr e rest t v =
     (if binary_op t then Some (TOK t v # EXPR e # rest)
      else if t = RPAREN then
        (case rest of
           TOK LPAREN lv # TOK PRINT pv # rest' \<Rightarrow> Some (TOK t v # EXPR e # rest)
         | TOK LPAREN lv # rest' \<Rightarrow> Some (EXPR (p_expr_parens e) # rest')
         | _ \<Rightarrow> None)
      else if t = SEMICOLON then
        (case rest of
           TOK EQ ev # TOK IDENT name # rest' \<Rightarrow> Some (STMT (p_stmt_assign name e) # rest')
         | _ \<Rightarrow> None)
      else None)"

definition after_token :: "tok_type \<Rightarrow> sym list \<Rightarrow> tok_type \<Rightarrow> pyval \<Rightarrow> sym list option" where
  "after_token t0 st t v =
     (if t0 = IDENT then (if t = EQ then Some (TOK t v # st) else None)
      else if t0 = PRINT then (if t = LPAREN then Some (TOK t v # st) else None)
      else if t0 = RPAREN then
        (if t = SEMICOLON then
           (case st of
              TOK RPAREN rv # EXPR e # TOK LPAREN lv # TOK PRINT pv # rest' \<Rightarrow>
                Some (STMT (p_stmt_print e) # rest')
            | _ \<Rightarrow> None)
         else None)
      else if t0 = EQ \<or> t0 = LPAREN \<or> binary_op t0 \<or> prefix_op t0 then starts_expr st t v
      else None)"

fun shift :: "sym list \<Rightarrow> token \<Rightarrow> sym list option" where
  "shift [] (Token t v) = starts_stmt [] t v"
| "shift (STMT s # rest) (Token t v) = starts_stmt (STMT s # rest) t v"
| "shift (EXPR e # rest) (Token t v) = after_expr e rest t v"
| "shift (TOK t0 tv # rest) (Token t v) = after_token t0 (TOK t0 tv # rest) t v"

text \<open>
  At the end of the input a stack of complete statements is reduced to the program: the
  empty production first, then \<open>stmt program\<close> from the last statement to the first.
\<close>

fun stmts_of_stack :: "sym list \<Rightarrow> pyval list option" where
  "stmts_of_stack [] = Some []"
| "stmts_of_stack (STMT s # rest) =
     (case stmts_of_stack rest of None \<Rightarrow> None | Some ss \<Rightarrow> Some (ss @ [s]))"
| "stmts_of_stack (x # rest) = None"

fun build_program :: "pyval list \<Rightarrow> pyval" where
  "build_program [] = p_program_empty"
| "build_program (s # ss) = p_program s (build_program ss)"

text \<open>
  \<^verbatim>\<open>
  def p_error(p):
      if not p: return
      print_error_message(p, f'Error: syntax error while processing {p.type}')
      raise SyntaxError(p.type)
  \<close>
  The parser calls \<open>p_error\<close> with the token it cannot shift, and with \<open>None\<close> when the
  input ends inside a statement; there \<open>p_error\<close> returns, the parser gives up and
  \<open>parse\<close> returns \<open>None\<close>. The diagnostic goes to the scanner's error file.
\<close>

fun parse_from :: "sym list \<Rightarrow> token list \<Rightarrow> fault + pyval" where
  "parse_from st [] =
     (case stmts_of_stack st of None \<Rightarrow> Inr PyNone | Some ss \<Rightarrow> Inr (build_program ss))"
| "parse_from st (tk # tks) =
     (case shift (reduce_exprs (ttype tk) st) tk of
        None \<Rightarrow> Inl (SyntaxError (ttype tk))
      | Some st' \<Rightarrow> parse_from st' tks)"

definition parse :: "token list \<Rightarrow> fault + pyval" where
  "parse tks = parse_from [] tks"

subsection \<open>Processing files\<close>

text \<open>
  \<^verbatim>\<open>
  for filename in sys.argv[1:]:
      print(f'[[ processing {filename} ]]')
      load_source(filename)
      variables = {}
      stmts = parser.parse(lexer=lexer)
      while stmts.kids: ...
  \<close>
  Modelled from the spec: the scanner (\<open>scanner.py\<close>: \<open>load_source\<close>, \<open>lexer\<close>) is not
  among the sources; the spec describes it as the supplier of an ordered, finite
  sequence of typed tokens with their literal values. Each file is therefore given by
  its name and the tokens the scanner delivers for it.
\<close>

definition run_file :: "string list \<Rightarrow> token list \<Rightarrow> state \<times> fault option" where
  "run_file out tks =
     (case parse tks of
        Inl e \<Rightarrow> (\<lparr>variables = Map.empty, stdout = out\<rparr>, Some e)
      | Inr stmts \<Rightarrow> run_statements \<lparr>variables = Map.empty, stdout = out\<rparr> stmts)"

fun main_from :: "string list \<Rightarrow> (string \<times> token list) list \<Rightarrow> string list \<times> fault option" where
  "main_from out [] = (out, None)"
| "main_from out ((filename, tks) # files) =
     (case run_file (out @ [''[[ processing '' @ filename @ '' ]]'']) tks of
        (st, Some e) \<Rightarrow> (stdout st, Some e)
      | (st, None) \<Rightarrow> main_from (stdout st) files)"

definition main :: "(string \<times> token list) list \<Rightarrow> string list \<times> fault option" where
  "main files = main_from [] files"

section \<open>The specification's notions\<close>

text \<open>
  Truncation in the specification's words: the exact result is reduced modulo \<open>2^64\<close>
  into \<open>[0, 2^64)\<close>, and \<open>2^64\<close> is subtracted if bit 63 is set.
\<close>

definition spec_truncate :: "int \<Rightarrow> int" where
  "spec_truncate n = (let m = n mod 2 ^ 64 in if bit m 63 then m - 2 ^ 64 else m)"

text \<open>
  The exact operators of the specification's table: integer addition, subtraction and
  multiplication, floor division \<open>floor(l / r)\<close>, floor modulo \<open>l - r * floor(l / r)\<close>,
  the bitwise operations on the infinite two's-complement representation, and the
  arithmetic shifts by \<open>r\<close> positions. \<open>spec_binop_defined\<close> says where the code applies
  them: on one of the ten symbols, with a divisor other than zero and a shift count that
  is not negative.
\<close>

definition spec_binop :: "string \<Rightarrow> int \<Rightarrow> int \<Rightarrow> int" where
  "spec_binop op l r =
     (if op = ''+'' then l + r
      else if op = ''-'' then l - r
      else if op = ''*'' then l * r
      else if op = ''/'' then \<lfloor>real_of_int l / real_of_int r\<rfloor>
      else if op = ''%'' then l - r * \<lfloor>real_of_int l / real_of_int r\<rfloor>
      else if op = ''&'' then l AND r
      else if op = ''|'' then l OR r
      else if op = ''^'' then l XOR r
      else if op = ''<<'' then l * 2 ^ nat r
      else if op = ''>>'' then \<lfloor>real_of_int l / 2 ^ nat r\<rfloor>
      else 0)"

definition spec_binop_defined :: "string \<Rightarrow> int \<Rightarrow> int \<Rightarrow> bool" where
  "spec_binop_defined op l r =
     (op \<in> {''+'', ''-'', ''*'', ''/'', ''%'', ''&'', ''|'', ''^'', ''<<'', ''>>''}
      \<and> (if op \<in> {''/'', ''%''} then r \<noteq> 0 else True)
      \<and> (if op \<in> {''<<'', ''>>''} then 0 \<le> r else True))"

definition spec_unop :: "string \<Rightarrow> int \<Rightarrow> int" where
  "spec_unop op x = (if op = ''-'' then - x else if op = ''~'' then - x - 1 else 0)"

text \<open>
  Running a sequence of statements in program order against one state, stopping at the
  first fault.
\<close>

fun run_in_order :: "state \<Rightarrow> pyval list \<Rightarrow> state \<times> fault option" where
  "run_in_order st [] = (st, None)"
| "run_in_order st (s # ss) =
     (case process_stmt st s of
        Inl e \<Rightarrow> (st\<lparr>stdout := stdout st @ fault_output e\<rparr>, Some e)
      | Inr st' \<Rightarrow> run_in_order st' ss)"

text \<open>
  The expression nodes the grammar actions build, and the two statement shapes:
  a \<open>print\<close> node holds its expression in \<open>value\<close> and has no kids; an \<open>assign\<close> node
  holds \<open>'='\<close> in \<open>value\<close> and has two kids, the target and the expression.
\<close>

fun expr_node :: "pyval \<Rightarrow> bool" where
  "expr_node (PyNode oc v ks) =
     (if oc = ''var'' \<or> oc = ''num'' then ks = []
      else if oc = ''binop'' then length ks = 2 \<and> list_all expr_node ks
      else if oc = ''unop'' then length ks = 1 \<and> list_all expr_node ks
      else False)"
| "expr_node v = False"

definition print_node :: "pyval \<Rightarrow> bool" where
  "print_node s = (opcode s = ''print'' \<and> is_PyNode s \<and> expr_node (nvalue s) \<and> kids s = [])"

definition assign_node :: "pyval \<Rightarrow> bool" where
  "assign_node s =
     (opcode s = ''assign'' \<and> is_PyNode s \<and> nvalue s = PyStr ''=''
      \<and> length (kids s) = 2 \<and> expr_node (kids s ! 1))"

text \<open>The statements of a program node, in order, as the driver's loop meets them.\<close>

fun program_statements :: "pyval \<Rightarrow> pyval list" where
  "program_statements (PyNode oc v (s # nxt # ks)) = s # program_statements nxt"
| "program_statements v = []"

text \<open>
  Modelled from the spec: the scanner is not among the sources. A token's value is its
  text: an identifier's name, the integer of a number, and for an operator the symbol
  under which \<open>evaluate_expression\<close> looks it up. \<open>lexeme\<close> is the text of the token
  types whose text is fixed (\<open>UMINUS\<close> is never scanned and has none).
\<close>

fun lexeme :: "tok_type \<Rightarrow> string" where
  "lexeme PLUS = ''+''"
| "lexeme MINUS = ''-''"
| "lexeme STAR = ''*''"
| "lexeme SLASH = ''/''"
| "lexeme PERCENT = ''%''"
| "lexeme AMP = ''&''"
| "lexeme BAR = ''|''"
| "lexeme CARET = ''^''"
| "lexeme LTLT = ''<<''"
| "lexeme GTGT = ''>>''"
| "lexeme TILDE = ''~''"
| "lexeme EQ = ''=''"
| "lexeme SEMICOLON = '';''"
| "lexeme LPAREN = ''(''"
| "lexeme RPAREN = '')''"
| "lexeme PRINT = ''print''"

definition ident :: "string \<Rightarrow> token" where
  "ident name = Token IDENT (PyStr name)"

definition number :: "int \<Rightarrow> token" where
  "number n = Token NUMBER (PyInt n)"

definition symbol :: "tok_type \<Rightarrow> token" where
  "symbol t = Token t (PyStr (lexeme t))"

text \<open>The number a string of decimal digits denotes.\<close>

definition decimal_value :: "string \<Rightarrow> nat" where
  "decimal_value ds = foldl (\<lambda>acc c. 10 * acc + (of_char c - 48)) 0 ds"

text \<open>
  The values of the identifier tokens of an input, and what the parser keeps on its
  stack: identifier tokens of the input, expression nodes, and statements of one of the
  two shapes whose target, for an assignment, is an identifier of the input.
\<close>

definition ident_values :: "token list \<Rightarrow> pyval list" where
  "ident_values tks = map tvalue (filter (\<lambda>tk. ttype tk = IDENT) tks)"

definition statement_shape :: "pyval list \<Rightarrow> pyval \<Rightarrow> bool" where
  "statement_shape names s = (print_node s \<or> (assign_node s \<and> kids s ! 0 \<in> set names))"

fun sym_ok :: "pyval list \<Rightarrow> sym \<Rightarrow> bool" where
  "sym_ok names (TOK t v) = (if t = IDENT then v \<in> set names else True)"
| "sym_ok names (EXPR e) = expr_node e"
| "sym_ok names (STMT s) = statement_shape names s"

section \<open>Properties\<close>

subsection \<open>Truncation\<close>

lemma mask64: "(18446744073709551615::int) = mask 64"
  by (simp add: mask_eq_exp_minus_1)

lemma truncate_number_take_bit:
  "truncate_number n = (if bit n 63 then take_bit 64 n - 2 ^ 64 else take_bit 64 n)"
proof -
  have a: "n AND 18446744073709551615 = take_bit 64 n"
    by (simp only: mask64 take_bit_eq_mask)
  have b: "(take_bit 64 n AND push_bit 63 1 \<noteq> 0) = bit n 63"
    by (simp only: push_bit_of_1 and_exp_eq_0_iff_not_bit bit_take_bit_iff) simp
  have c: "push_bit 64 (1::int) = 2 ^ 64"
    by (simp only: push_bit_of_1)
  show ?thesis
    unfolding truncate_number_def Let_def a b c ..
qed

lemma truncate_number_signed: "truncate_number n = signed_take_bit 63 n"
  unfolding truncate_number_take_bit
  by (simp only: signed_take_bit_eq_take_bit_minus [of 63 n]) simp

lemma truncate_number_spec: "truncate_number n = spec_truncate n"
  unfolding truncate_number_take_bit spec_truncate_def Let_def
  by (simp only: flip: take_bit_eq_mod) (simp add: bit_take_bit_iff)

lemma truncate_number_bounds:
  "- (2 ^ 63) \<le> truncate_number n" "truncate_number n < 2 ^ 63"
  unfolding truncate_number_signed
  using signed_take_bit_int_greater_eq_minus_exp [of 63 n] signed_take_bit_int_less_exp [of 63 n]
  by simp_all

lemma truncate_number_twice: "truncate_number (truncate_number n) = truncate_number n"
  unfolding truncate_number_signed by simp

lemma truncate_number_in_range:
  "- (2 ^ 63) \<le> n \<Longrightarrow> n < 2 ^ 63 \<Longrightarrow> truncate_number n = n"
  unfolding truncate_number_signed
  by (simp add: signed_take_bit_int_eq_self)

lemma truncate_number_mod:
  "truncate_number n =
     (if 9223372036854775808 \<le> n mod 18446744073709551616
      then n mod 18446744073709551616 - 18446744073709551616
      else n mod 18446744073709551616)"
proof -
  have "bit (take_bit 64 n) 63 = bit n 63" by (simp add: bit_take_bit_iff)
  moreover have "take_bit 64 n = take_bit 63 n + 2 ^ 63 * of_bool (bit n 63)"
    using take_bit_Suc_from_most [of 63 n] by simp
  moreover have "0 \<le> take_bit 63 n" "take_bit 63 n < 2 ^ 63"
    using take_bit_int_less_exp [of 63 n] by simp_all
  ultimately have "bit n 63 = (2 ^ 63 \<le> take_bit 64 n)"
    by (auto simp: of_bool_def)
  then show ?thesis
    unfolding truncate_number_take_bit by (simp add: take_bit_eq_mod)
qed


subsection \<open>Operators and the evaluator\<close>

lemma floor_div_pow: "\<lfloor>real_of_int l / 2 ^ n\<rfloor> = l div 2 ^ n"
  using floor_divide_of_int_eq [of l "2 ^ n"] by simp

lemma binop_table_sound:
  assumes "binop_table op = Some f" and "f a b = Inr n"
  shows "spec_binop_defined op a b \<and> n = spec_binop op a b"
  using assms
  by (auto simp: binop_table_def spec_binop_def spec_binop_defined_def floor_divide_of_int_eq
      floor_div_pow push_bit_eq_mult drop_bit_eq_div minus_mult_div_eq_mod
      split: if_splits)

lemma binop_table_complete:
  assumes "spec_binop_defined op a b"
  shows "\<exists>f. binop_table op = Some f \<and> f a b = Inr (spec_binop op a b)"
  using assms
  by (auto simp: binop_table_def spec_binop_def spec_binop_defined_def floor_divide_of_int_eq
      floor_div_pow push_bit_eq_mult drop_bit_eq_div minus_mult_div_eq_mod split: if_splits)

lemma unop_table_sound:
  "unop_table op = Some f \<Longrightarrow> (op = ''-'' \<or> op = ''~'') \<and> f a = spec_unop op a"
  by (auto simp: unop_table_def spec_unop_def not_int_def split: if_splits)

lemma unop_table_complete:
  "op = ''-'' \<or> op = ''~'' \<Longrightarrow> \<exists>f. unop_table op = Some f \<and> f a = spec_unop op a"
  by (auto simp: unop_table_def spec_unop_def not_int_def)

lemma eval_binop_Inr:
  assumes "evaluate_expression vars (PyNode ''binop'' v ks) = Inr res"
  shows "\<exists>op f l r rest a b n. v = PyStr op \<and> binop_table op = Some f \<and> ks = l # r # rest
           \<and> evaluate_expression vars l = Inr (PyInt a)
           \<and> evaluate_expression vars r = Inr (PyInt b)
           \<and> f a b = Inr n \<and> res = PyInt (truncate_number n)"
  using assms
  by (auto simp: lookup_binop_def apply_binop_def
      split: sum.splits list.splits pyval.splits option.splits)

lemma eval_unop_Inr:
  assumes "evaluate_expression vars (PyNode ''unop'' v ks) = Inr res"
  shows "\<exists>op f x rest a. v = PyStr op \<and> unop_table op = Some f \<and> ks = x # rest
           \<and> evaluate_expression vars x = Inr (PyInt a)
           \<and> res = PyInt (truncate_number (f a))"
  using assms
  by (auto simp: lookup_unop_def apply_unop_def
      split: sum.splits list.splits pyval.splits option.splits)

lemma eval_binop_ints:
  assumes "evaluate_expression vars l = Inr (PyInt a)"
    and "evaluate_expression vars r = Inr (PyInt b)"
    and "binop_table op = Some f"
  shows "evaluate_expression vars (PyNode ''binop'' (PyStr op) (l # r # rest)) =
           (case f a b of Inl e \<Rightarrow> Inl e | Inr n \<Rightarrow> Inr (PyInt (truncate_number n)))"
  using assms by (simp add: lookup_binop_def apply_binop_def)

lemma eval_unop_int:
  assumes "evaluate_expression vars x = Inr (PyInt a)"
    and "unop_table op = Some f"
  shows "evaluate_expression vars (PyNode ''unop'' (PyStr op) (x # rest)) =
           Inr (PyInt (truncate_number (f a)))"
  using assms by (simp add: lookup_unop_def apply_unop_def)

text \<open>
  Claim C1. Whenever the evaluator returns a value for a \<open>binop\<close> or \<open>unop\<close> node, the
  operands evaluated to integers, the operator was applied to them in exact integer
  arithmetic, and the value is that result reduced modulo \<open>2^64\<close> with \<open>2^64\<close> subtracted
  when bit 63 is set; it lies in \<open>[-2^63, 2^63)\<close>. Conversely, on integer operands on
  which the operator is defined the evaluator does return that value. At
  \<open>BinOp(+, Num(2^63 - 1), Num(1))\<close> the value is \<open>-2^63\<close>.
\<close>

theorem evaluate_operation_truncates:
  "(evaluate_expression vars (PyNode ''binop'' v ks) = Inr res \<longrightarrow>
      (\<exists>op l r rest a b.
         v = PyStr op \<and> ks = l # r # rest
         \<and> evaluate_expression vars l = Inr (PyInt a)
         \<and> evaluate_expression vars r = Inr (PyInt b)
         \<and> spec_binop_defined op a b
         \<and> res = PyInt (spec_truncate (spec_binop op a b))
         \<and> - (2 ^ 63) \<le> spec_truncate (spec_binop op a b)
         \<and> spec_truncate (spec_binop op a b) < 2 ^ 63))
   \<and> (evaluate_expression vars (PyNode ''unop'' v ks) = Inr res \<longrightarrow>
      (\<exists>op x rest a.
         v = PyStr op \<and> ks = x # rest \<and> (op = ''-'' \<or> op = ''~'')
         \<and> evaluate_expression vars x = Inr (PyInt a)
         \<and> res = PyInt (spec_truncate (spec_unop op a))
         \<and> - (2 ^ 63) \<le> spec_truncate (spec_unop op a)
         \<and> spec_truncate (spec_unop op a) < 2 ^ 63))
   \<and> (evaluate_expression vars l = Inr (PyInt a) \<and> evaluate_expression vars r = Inr (PyInt b)
        \<and> spec_binop_defined op a b \<longrightarrow>
      evaluate_expression vars (PyNode ''binop'' (PyStr op) [l, r]) =
        Inr (PyInt (spec_truncate (spec_binop op a b))))
   \<and> (evaluate_expression vars l = Inr (PyInt a) \<and> (op = ''-'' \<or> op = ''~'') \<longrightarrow>
      evaluate_expression vars (PyNode ''unop'' (PyStr op) [l]) =
        Inr (PyInt (spec_truncate (spec_unop op a))))"
proof (intro conjI impI)
  assume "evaluate_expression vars (PyNode ''binop'' v ks) = Inr res"
  from eval_binop_Inr [OF this] obtain op f l r rest a b n where
    h: "v = PyStr op" "binop_table op = Some f" "ks = l # r # rest"
       "evaluate_expression vars l = Inr (PyInt a)" "evaluate_expression vars r = Inr (PyInt b)"
       "f a b = Inr n" "res = PyInt (truncate_number n)"
    by blast
  from binop_table_sound [OF h(2) h(6)]
  have d: "spec_binop_defined op a b" and n: "n = spec_binop op a b" by simp_all
  have "res = PyInt (spec_truncate (spec_binop op a b))"
    using h(7) n by (simp add: truncate_number_spec)
  moreover have "- (2 ^ 63) \<le> spec_truncate (spec_binop op a b)"
    "spec_truncate (spec_binop op a b) < 2 ^ 63"
    using truncate_number_bounds [of "spec_binop op a b"] by (simp_all add: truncate_number_spec)
  ultimately show "\<exists>op l r rest a b.
         v = PyStr op \<and> ks = l # r # rest
         \<and> evaluate_expression vars l = Inr (PyInt a)
         \<and> evaluate_expression vars r = Inr (PyInt b)
         \<and> spec_binop_defined op a b
         \<and> res = PyInt (spec_truncate (spec_binop op a b))
         \<and> - (2 ^ 63) \<le> spec_truncate (spec_binop op a b)
         \<and> spec_truncate (spec_binop op a b) < 2 ^ 63"
    using h(1,3,4,5) d by blast
next
  assume "evaluate_expression vars (PyNode ''unop'' v ks) = Inr res"
  from eval_unop_Inr [OF this] obtain op f x rest a where
    h: "v = PyStr op" "unop_table op = Some f" "ks = x # rest"
       "evaluate_expression vars x = Inr (PyInt a)" "res = PyInt (truncate_number (f a))"
    by blast
  from unop_table_sound [OF h(2), of a]
  have d: "op = ''-'' \<or> op = ''~''" and n: "f a = spec_unop op a" by simp_all
  have "res = PyInt (spec_truncate (spec_unop op a))"
    using h(5) n by (simp add: truncate_number_spec)
  moreover have "- (2 ^ 63) \<le> spec_truncate (spec_unop op a)"
    "spec_truncate (spec_unop op a) < 2 ^ 63"
    using truncate_number_bounds [of "spec_unop op a"] by (simp_all add: truncate_number_spec)
  ultimately show "\<exists>op x rest a.
         v = PyStr op \<and> ks = x # rest \<and> (op = ''-'' \<or> op = ''~'')
         \<and> evaluate_expression vars x = Inr (PyInt a)
         \<and> res = PyInt (spec_truncate (spec_unop op a))
         \<and> - (2 ^ 63) \<le> spec_truncate (spec_unop op a)
         \<and> spec_truncate (spec_unop op a) < 2 ^ 63"
    using h(1,3,4) d by blast
next
  assume a: "evaluate_expression vars l = Inr (PyInt a) \<and> evaluate_expression vars r = Inr (PyInt b)
        \<and> spec_binop_defined op a b"
  then obtain f where f: "binop_table op = Some f" "f a b = Inr (spec_binop op a b)"
    using binop_table_complete by blast
  show "evaluate_expression vars (PyNode ''binop'' (PyStr op) [l, r]) =
        Inr (PyInt (spec_truncate (spec_binop op a b)))"
    using a f eval_binop_ints [of vars l a r b op f "[]"] by (simp add: truncate_number_spec)
next
  assume a: "evaluate_expression vars l = Inr (PyInt a) \<and> (op = ''-'' \<or> op = ''~'')"
  then obtain f where f: "unop_table op = Some f" "f a = spec_unop op a"
    using unop_table_complete by blast
  show "evaluate_expression vars (PyNode ''unop'' (PyStr op) [l]) =
        Inr (PyInt (spec_truncate (spec_unop op a)))"
    using a f eval_unop_int [of vars l a op f "[]"] by (simp add: truncate_number_spec)
qed

theorem evaluate_operation_truncates_witness:
  "evaluate_expression Map.empty
     (PyNode ''binop'' (PyStr ''+'')
        [PyNode ''num'' (PyInt (2 ^ 63 - 1)) [], PyNode ''num'' (PyInt 1) []])
     = Inr (PyInt (- (2 ^ 63)))
   \<and> spec_binop_defined ''+'' (2 ^ 63 - 1) 1
   \<and> spec_truncate (spec_binop ''+'' (2 ^ 63 - 1) 1) = - (2 ^ 63)"
proof -
  have t: "spec_truncate (spec_binop ''+'' (2 ^ 63 - 1) 1) = - (2 ^ 63)"
    by (simp add: spec_binop_def truncate_number_mod flip: truncate_number_spec)
  have d: "spec_binop_defined ''+'' (2 ^ 63 - 1) 1"
    by (simp add: spec_binop_defined_def)
  have "evaluate_expression Map.empty (PyNode ''num'' (PyInt (2 ^ 63 - 1)) []) = Inr (PyInt (2 ^ 63 - 1))"
    "evaluate_expression Map.empty (PyNode ''num'' (PyInt 1) []) = Inr (PyInt 1)"
    by simp_all
  with d evaluate_operation_truncates
    [of Map.empty "PyStr ''+''" "[]" PyNone "PyNode ''num'' (PyInt (2 ^ 63 - 1)) []" "2 ^ 63 - 1"
        "PyNode ''num'' (PyInt 1) []" 1 "''+''"]
  have "evaluate_expression Map.empty
     (PyNode ''binop'' (PyStr ''+'')
        [PyNode ''num'' (PyInt (2 ^ 63 - 1)) [], PyNode ''num'' (PyInt 1) []])
     = Inr (PyInt (spec_truncate (spec_binop ''+'' (2 ^ 63 - 1) 1)))"
    by blast
  with t d show ?thesis by simp
qed

subsection \<open>Claims about truncation, division and literals\<close>

text \<open>
  Claim C10. For every integer \<open>n\<close>, \<open>truncate_number n\<close> lies in \<open>[-2^63, 2^63)\<close> and
  truncating it again changes nothing; hence every value the evaluator returns for a
  \<open>binop\<close> or \<open>unop\<close> node is an integer that truncation leaves fixed.
\<close>

theorem truncate_number_idempotent:
  "- (2 ^ 63) \<le> truncate_number n \<and> truncate_number n < 2 ^ 63
   \<and> truncate_number (truncate_number n) = truncate_number n
   \<and> ((oc = ''binop'' \<or> oc = ''unop'') \<and> evaluate_expression vars (PyNode oc v ks) = Inr res
        \<longrightarrow> (\<exists>m. res = PyInt m \<and> truncate_number m = m))"
proof (intro conjI impI)
  assume a: "(oc = ''binop'' \<or> oc = ''unop'') \<and> evaluate_expression vars (PyNode oc v ks) = Inr res"
  then consider (b) "evaluate_expression vars (PyNode ''binop'' v ks) = Inr res"
    | (u) "evaluate_expression vars (PyNode ''unop'' v ks) = Inr res"
    by blast
  then show "\<exists>m. res = PyInt m \<and> truncate_number m = m"
  proof cases
    case b
    from eval_binop_Inr [OF this] obtain n where "res = PyInt (truncate_number n)" by blast
    then show ?thesis by (simp add: truncate_number_twice)
  next
    case u
    from eval_unop_Inr [OF this] obtain f a where "res = PyInt (truncate_number (f a))" by blast
    then show ?thesis by (simp add: truncate_number_twice)
  qed
qed (use truncate_number_bounds [of n] in \<open>simp_all add: truncate_number_twice\<close>)

theorem truncate_number_idempotent_witness:
  "truncate_number (2 ^ 64 + 5) = 5
   \<and> truncate_number (truncate_number (2 ^ 64 + 5)) = truncate_number (2 ^ 64 + 5)
   \<and> evaluate_expression Map.empty
        (PyNode ''unop'' (PyStr ''~'') [PyNode ''num'' (PyInt (2 ^ 64 + 5)) []]) = Inr (PyInt (- 6))
   \<and> truncate_number (- 6) = - 6"
proof -
  have e: "evaluate_expression Map.empty
        (PyNode ''unop'' (PyStr ''~'') [PyNode ''num'' (PyInt (2 ^ 64 + 5)) []]) = Inr (PyInt (- 6))"
    by (simp add: lookup_unop_def unop_table_def apply_unop_def truncate_number_mod not_int_def)
  from truncate_number_idempotent
    [of "2 ^ 64 + 5" "''unop''" Map.empty "PyStr ''~''"
        "[PyNode ''num'' (PyInt (2 ^ 64 + 5)) []]" "PyInt (- 6)"] e
  have "truncate_number (truncate_number (2 ^ 64 + 5)) = truncate_number (2 ^ 64 + 5)"
    and "truncate_number (- 6) = - 6"
    by simp_all
  moreover have "truncate_number (2 ^ 64 + 5) = 5"
    by (simp add: truncate_number_mod)
  ultimately show ?thesis using e by simp
qed

text \<open>
  Claim C3. With integer operands \<open>a\<close> and \<open>b \<noteq> 0\<close>, \<open>/\<close> yields (the truncation of)
  \<open>floor(a / b)\<close>, the quotient rounded towards minus infinity, and \<open>%\<close> yields (the
  truncation of) \<open>a - b * floor(a / b)\<close>, which lies between 0 and the divisor and so has
  the divisor's sign. At \<open>-7\<close> and \<open>2\<close> the results are \<open>-4\<close> and \<open>1\<close>.
\<close>

theorem division_rounds_to_floor:
  assumes "evaluate_expression vars l = Inr (PyInt a)"
    and "evaluate_expression vars r = Inr (PyInt b)"
    and "b \<noteq> 0"
  shows "evaluate_expression vars (PyNode ''binop'' (PyStr ''/'') [l, r]) =
           Inr (PyInt (truncate_number \<lfloor>real_of_int a / real_of_int b\<rfloor>))
       \<and> evaluate_expression vars (PyNode ''binop'' (PyStr ''%'') [l, r]) =
           Inr (PyInt (truncate_number (a - b * \<lfloor>real_of_int a / real_of_int b\<rfloor>)))
       \<and> (if 0 < b then 0 \<le> a - b * \<lfloor>real_of_int a / real_of_int b\<rfloor>
                       \<and> a - b * \<lfloor>real_of_int a / real_of_int b\<rfloor> < b
          else b < a - b * \<lfloor>real_of_int a / real_of_int b\<rfloor>
                       \<and> a - b * \<lfloor>real_of_int a / real_of_int b\<rfloor> \<le> 0)"
proof -
  have m: "a - b * \<lfloor>real_of_int a / real_of_int b\<rfloor> = a mod b"
    by (simp add: floor_divide_of_int_eq minus_mult_div_eq_mod)
  have "evaluate_expression vars (PyNode ''binop'' (PyStr ''/'') [l, r]) =
           Inr (PyInt (truncate_number \<lfloor>real_of_int a / real_of_int b\<rfloor>))"
    using assms by (simp add: lookup_binop_def binop_table_def apply_binop_def floor_divide_of_int_eq)
  moreover have "evaluate_expression vars (PyNode ''binop'' (PyStr ''%'') [l, r]) =
           Inr (PyInt (truncate_number (a - b * \<lfloor>real_of_int a / real_of_int b\<rfloor>)))"
    unfolding m using assms by (simp add: lookup_binop_def binop_table_def apply_binop_def)
  moreover have "if 0 < b then 0 \<le> a mod b \<and> a mod b < b else b < a mod b \<and> a mod b \<le> 0"
    using assms(3) by simp
  ultimately show ?thesis unfolding m by simp
qed

theorem division_rounds_to_floor_witness:
  "evaluate_expression Map.empty
     (PyNode ''binop'' (PyStr ''/'') [PyNode ''num'' (PyInt (- 7)) [], PyNode ''num'' (PyInt 2) []])
     = Inr (PyInt (- 4))
   \<and> evaluate_expression Map.empty
     (PyNode ''binop'' (PyStr ''%'') [PyNode ''num'' (PyInt (- 7)) [], PyNode ''num'' (PyInt 2) []])
     = Inr (PyInt 1)"
proof -
  have f: "\<lfloor>real_of_int (- 7) / real_of_int 2\<rfloor> = - 4"
    using floor_divide_of_int_eq [of "- 7" 2] by simp
  have h: "evaluate_expression Map.empty (PyNode ''num'' (PyInt (- 7)) []) = Inr (PyInt (- 7))"
    "evaluate_expression Map.empty (PyNode ''num'' (PyInt 2) []) = Inr (PyInt 2)"
    "(2::int) \<noteq> 0"
    by simp_all
  from division_rounds_to_floor [OF h]
  show ?thesis
    by (simp only: f) (simp add: truncate_number_mod)
qed

text \<open>
  Claim C4. In every environment a \<open>num\<close> node evaluates to its integer unchanged,
  whatever its size (\<open>2^64\<close> stays \<open>2^64\<close>, which truncation would turn into 0); the
  value is truncated once it goes through a binary or a unary operation.
\<close>

theorem evaluate_num_untruncated:
  "evaluate_expression vars (PyNode ''num'' (PyInt n) ks) = Inr (PyInt n)
   \<and> evaluate_expression vars
        (PyNode ''binop'' (PyStr ''+'') [PyNode ''num'' (PyInt n) ks, PyNode ''num'' (PyInt 0) ks'])
       = Inr (PyInt (truncate_number n))
   \<and> evaluate_expression vars
        (PyNode ''unop'' (PyStr ''-'') [PyNode ''unop'' (PyStr ''-'') [PyNode ''num'' (PyInt n) ks]])
       = Inr (PyInt (truncate_number n))
   \<and> evaluate_expression vars (PyNode ''num'' (PyInt (2 ^ 64)) ks) = Inr (PyInt (2 ^ 64))
   \<and> truncate_number (2 ^ 64) = 0"
proof -
  have "truncate_number (- truncate_number (- n)) = truncate_number n"
    unfolding truncate_number_signed
    by (metis signed_take_bit_minus minus_minus)
  then show ?thesis
    by (simp add: lookup_binop_def binop_table_def apply_binop_def
      lookup_unop_def unop_table_def apply_unop_def truncate_number_mod)
qed

subsection \<open>The statement loop\<close>

lemma run_statements_build: "run_statements st (build_program ss) = run_in_order st ss"
  by (induction ss arbitrary: st) (auto simp: p_program_empty_def p_program_def split: sum.splits)

lemma program_statements_build: "program_statements (build_program ss) = ss"
  by (induction ss) (simp_all add: p_program_empty_def p_program_def)

lemma parse_from_program:
  "parse_from stk tks = Inr prog \<Longrightarrow> prog = PyNone \<or> (\<exists>ss. prog = build_program ss)"
  by (induction tks arbitrary: stk) (auto split: option.splits)

lemma decimal_value_snoc: "decimal_value (ds @ [c]) = 10 * decimal_value ds + (of_char c - 48)"
  by (simp add: decimal_value_def)

lemma of_char_digit: "d < 10 \<Longrightarrow> (of_char (char_of (48 + d) :: char) :: nat) = 48 + d"
  by simp

lemma decimal_value_digits_of: "decimal_value (digits_of n) = n"
proof (induction n rule: digits_of.induct)
  case (1 n)
  show ?case
  proof (cases "n < 10")
    case True
    then show ?thesis
      by (subst digits_of.simps) (simp add: decimal_value_def)
  next
    case False
    then have "decimal_value (digits_of (n div 10)) = n div 10" using 1 by simp
    moreover have "(of_char (char_of (48 + n mod 10) :: char) :: nat) = 48 + n mod 10"
      by (rule of_char_digit) simp
    ultimately show ?thesis
      using False by (subst digits_of.simps) (simp add: decimal_value_snoc)
  qed
qed

lemma process_print_int:
  "evaluate_expression (variables st) e = Inr (PyInt n) \<Longrightarrow>
   process_stmt st (p_stmt_print e) = Inr (st\<lparr>stdout := stdout st @ [str_int n]\<rparr>)"
  by (simp add: p_stmt_print_def py_str_def)

lemma process_assign:
  "evaluate_expression (variables st) e = Inr x \<Longrightarrow>
   process_stmt st (p_stmt_assign (PyStr name) e) =
     Inr (st\<lparr>variables := (variables st)(PyStr name \<mapsto> x)\<rparr>)"
  by (simp add: p_stmt_assign_def)

lemma process_stmt_fault:
  "evaluate_expression (variables st) e = Inl f \<Longrightarrow>
   process_stmt st (p_stmt_print e) = Inl f \<and> process_stmt st (p_stmt_assign target e) = Inl f"
  by (simp add: p_stmt_print_def p_stmt_assign_def)

lemma run_statements_fault:
  "process_stmt st s = Inl f \<Longrightarrow>
   run_statements st (p_program s rest) = (st\<lparr>stdout := stdout st @ fault_output f\<rparr>, Some f)"
  by (simp add: p_program_def)

lemma main_from_fault:
  "run_file (out @ [''[[ processing '' @ filename @ '' ]]'']) tks = (st, Some f) \<Longrightarrow>
   main_from out ((filename, tks) # files) = (stdout st, Some f)"
  by simp

text \<open>
  Claim C9. The statement loop runs the statements of a program in program order against
  one state, stopping at the first fault; this is what happens to the program parsed from
  a file. A \<open>print\<close> statement whose expression evaluates to the integer \<open>n\<close> appends
  exactly one line, the decimal digits of \<open>n\<close> after a minus sign if it is negative, and
  leaves the variables alone; an assignment binds the name and writes nothing. For
  \<open>x = 1; print(x); x = 2; print(x);\<close> the output is the line \<open>1\<close>, then the line \<open>2\<close>.
\<close>

theorem statements_run_in_program_order:
  "run_statements st (build_program ss) = run_in_order st ss
   \<and> (parse tks = Inr prog \<and> prog \<noteq> PyNone \<longrightarrow>
        run_file out tks = run_in_order \<lparr>variables = Map.empty, stdout = out\<rparr> (program_statements prog))
   \<and> (evaluate_expression (variables st) e = Inr (PyInt n) \<longrightarrow>
        process_stmt st (p_stmt_print e) = Inr (st\<lparr>stdout := stdout st @ [str_int n]\<rparr>))
   \<and> (evaluate_expression (variables st) e = Inr x \<longrightarrow>
        process_stmt st (p_stmt_assign (PyStr name) e) =
          Inr (st\<lparr>variables := (variables st)(PyStr name \<mapsto> x)\<rparr>))
   \<and> str_int n = (if n < 0 then CHR ''-'' # digits_of (nat (- n)) else digits_of (nat n))
   \<and> decimal_value (digits_of k) = k"
proof (intro conjI impI)
  assume a: "parse tks = Inr prog \<and> prog \<noteq> PyNone"
  then obtain ss where ss: "prog = build_program ss"
    using parse_from_program [of "[]" tks prog] by (auto simp: parse_def)
  show "run_file out tks = run_in_order \<lparr>variables = Map.empty, stdout = out\<rparr> (program_statements prog)"
    using a by (simp add: run_file_def ss run_statements_build program_statements_build)
qed (simp_all add: run_statements_build process_print_int process_assign str_int_def
      decimal_value_digits_of)

theorem statements_run_in_program_order_witness:
  "parse [ident ''x'', symbol EQ, number 1, symbol SEMICOLON,
          symbol PRINT, symbol LPAREN, ident ''x'', symbol RPAREN, symbol SEMICOLON,
          ident ''x'', symbol EQ, number 2, symbol SEMICOLON,
          symbol PRINT, symbol LPAREN, ident ''x'', symbol RPAREN, symbol SEMICOLON]
     = Inr (build_program
         [p_stmt_assign (PyStr ''x'') (p_expr_number (PyInt 1)),
          p_stmt_print (p_expr_ident (PyStr ''x'')),
          p_stmt_assign (PyStr ''x'') (p_expr_number (PyInt 2)),
          p_stmt_print (p_expr_ident (PyStr ''x''))])
   \<and> stdout (fst (run_file []
        [ident ''x'', symbol EQ, number 1, symbol SEMICOLON,
          symbol PRINT, symbol LPAREN, ident ''x'', symbol RPAREN, symbol SEMICOLON,
          ident ''x'', symbol EQ, number 2, symbol SEMICOLON,
          symbol PRINT, symbol LPAREN, ident ''x'', symbol RPAREN, symbol SEMICOLON]))
       = [''1'', ''2'']
   \<and> snd (run_file []
        [ident ''x'', symbol EQ, number 1, symbol SEMICOLON,
          symbol PRINT, symbol LPAREN, ident ''x'', symbol RPAREN, symbol SEMICOLON,
          ident ''x'', symbol EQ, number 2, symbol SEMICOLON,
          symbol PRINT, symbol LPAREN, ident ''x'', symbol RPAREN, symbol SEMICOLON]) = None"
proof -
  let ?tks = "[ident ''x'', symbol EQ, number 1, symbol SEMICOLON,
          symbol PRINT, symbol LPAREN, ident ''x'', symbol RPAREN, symbol SEMICOLON,
          ident ''x'', symbol EQ, number 2, symbol SEMICOLON,
          symbol PRINT, symbol LPAREN, ident ''x'', symbol RPAREN, symbol SEMICOLON]"
  let ?ss = "[p_stmt_assign (PyStr ''x'') (p_expr_number (PyInt 1)),
          p_stmt_print (p_expr_ident (PyStr ''x'')),
          p_stmt_assign (PyStr ''x'') (p_expr_number (PyInt 2)),
          p_stmt_print (p_expr_ident (PyStr ''x''))]"
  have p: "parse ?tks = Inr (build_program ?ss)"
    by (simp add: parse_def ident_def number_def symbol_def starts_stmt_def starts_expr_def
        after_expr_def after_token_def follows_expr_def binary_op_def prefix_op_def)
  have n: "build_program ?ss \<noteq> PyNone"
    by (simp add: p_program_def)
  have d: "str_int 1 = ''1''" "str_int 2 = ''2''"
    by code_simp+
  have r: "run_in_order \<lparr>variables = Map.empty, stdout = []\<rparr> ?ss =
          (\<lparr>variables = [PyStr ''x'' \<mapsto> PyInt 2], stdout = [''1'', ''2'']\<rparr>, None)"
    by (simp add: p_stmt_assign_def p_stmt_print_def p_expr_number_def p_expr_ident_def
        py_str_def d)
  from statements_run_in_program_order [of _ "[]" ?tks "build_program ?ss" "[]"] p n
  have "run_file [] ?tks =
          run_in_order \<lparr>variables = Map.empty, stdout = []\<rparr>
            (program_statements (build_program ?ss))"
    by blast
  then have "run_file [] ?tks = run_in_order \<lparr>variables = Map.empty, stdout = []\<rparr> ?ss"
    by (simp only: program_statements_build)
  with p r show ?thesis by (simp only: fst_conv snd_conv state.simps simp_thms)
qed

subsection \<open>Faults\<close>

lemma eval_var_unbound:
  "vars (PyStr name) = None \<Longrightarrow>
   evaluate_expression vars (PyNode ''var'' (PyStr name) ks) =
     Inl (SystemExit (''Error: '' @ name @ '' is not defined'') 1)"
  by (simp add: py_str_def)

lemma eval_var_bound:
  "vars (PyStr name) = Some x \<Longrightarrow>
   evaluate_expression vars (PyNode ''var'' (PyStr name) ks) = Inr x"
  by simp

lemma eval_binop_fault_left:
  "binop_table op = Some f \<Longrightarrow> evaluate_expression vars l = Inl e \<Longrightarrow>
   evaluate_expression vars (PyNode ''binop'' (PyStr op) (l # ks)) = Inl e"
  by (simp add: lookup_binop_def)

lemma eval_binop_fault_right:
  "binop_table op = Some f \<Longrightarrow> evaluate_expression vars l = Inr a \<Longrightarrow>
   evaluate_expression vars r = Inl e \<Longrightarrow>
   evaluate_expression vars (PyNode ''binop'' (PyStr op) (l # r # ks)) = Inl e"
  by (simp add: lookup_binop_def)

lemma eval_unop_fault:
  "unop_table op = Some f \<Longrightarrow> evaluate_expression vars x = Inl e \<Longrightarrow>
   evaluate_expression vars (PyNode ''unop'' (PyStr op) (x # ks)) = Inl e"
  by (simp add: lookup_unop_def)

lemma eval_division_by_zero:
  assumes "op = ''/'' \<or> op = ''%''" and "evaluate_expression vars r = Inr (PyInt 0)"
  shows "evaluate_expression vars (PyNode ''binop'' (PyStr op) [l, r]) =
           (case evaluate_expression vars l of
              Inl e \<Rightarrow> Inl e
            | Inr (PyInt a) \<Rightarrow> Inl ZeroDivisionError
            | Inr x \<Rightarrow> Inl OperandError)"
  using assms
  by (auto simp: lookup_binop_def binop_table_def apply_binop_def split: sum.splits pyval.splits)

text \<open>
  Claim C7. A \<open>var\<close> node whose name is bound evaluates to the bound value, unchanged.
  One whose name is not bound writes the line \<open>Error: name is not defined\<close> and exits
  with status 1. The exit passes through every enclosing operation and through the
  statement, ends the statement loop with no later statement run, and ends \<open>main\<close> with
  no later file processed.
\<close>

theorem undefined_variable_is_fatal:
  "(variables st (PyStr name) = None \<longrightarrow>
      evaluate_expression (variables st) (PyNode ''var'' (PyStr name) ks)
        = Inl (SystemExit (''Error: '' @ name @ '' is not defined'') 1)
      \<and> exit_status (Some (SystemExit (''Error: '' @ name @ '' is not defined'') 1)) \<noteq> 0)
   \<and> (variables st (PyStr name) = Some x \<longrightarrow>
      evaluate_expression (variables st) (PyNode ''var'' (PyStr name) ks) = Inr x)
   \<and> (binop_table op = Some f \<and> evaluate_expression (variables st) l = Inl (SystemExit line c) \<longrightarrow>
      evaluate_expression (variables st) (PyNode ''binop'' (PyStr op) [l, r]) = Inl (SystemExit line c))
   \<and> (binop_table op = Some f \<and> evaluate_expression (variables st) l = Inr a
        \<and> evaluate_expression (variables st) r = Inl (SystemExit line c) \<longrightarrow>
      evaluate_expression (variables st) (PyNode ''binop'' (PyStr op) [l, r]) = Inl (SystemExit line c))
   \<and> (unop_table uop = Some g \<and> evaluate_expression (variables st) l = Inl (SystemExit line c) \<longrightarrow>
      evaluate_expression (variables st) (PyNode ''unop'' (PyStr uop) [l]) = Inl (SystemExit line c))
   \<and> (evaluate_expression (variables st) e = Inl (SystemExit line c) \<longrightarrow>
      process_stmt st (p_stmt_print e) = Inl (SystemExit line c)
      \<and> process_stmt st (p_stmt_assign target e) = Inl (SystemExit line c))
   \<and> (process_stmt st s = Inl (SystemExit line c) \<longrightarrow>
      run_statements st (p_program s rest) =
        (st\<lparr>stdout := stdout st @ [line]\<rparr>, Some (SystemExit line c)))
   \<and> (run_file (out @ [''[[ processing '' @ filename @ '' ]]'']) tks = (st', Some (SystemExit line c)) \<longrightarrow>
      main_from out ((filename, tks) # files) = (stdout st', Some (SystemExit line c)))"
  by (intro conjI impI)
    (simp_all add: py_str_def lookup_binop_def lookup_unop_def process_stmt_fault
      run_statements_fault)

theorem undefined_variable_is_fatal_witness:
  "main [(''a.bx'', [ident ''x'', symbol EQ, number 5, symbol SEMICOLON,
                     symbol PRINT, symbol LPAREN, ident ''x'', symbol RPAREN, symbol SEMICOLON,
                     symbol PRINT, symbol LPAREN, ident ''q'', symbol RPAREN, symbol SEMICOLON,
                     symbol PRINT, symbol LPAREN, number 1, symbol RPAREN, symbol SEMICOLON]),
         (''b.bx'', [symbol PRINT, symbol LPAREN, number 7, symbol RPAREN, symbol SEMICOLON])]
     = ([''[[ processing a.bx ]]'', ''5'', ''Error: q is not defined''],
        Some (SystemExit ''Error: q is not defined'' 1))
   \<and> exit_status (Some (SystemExit ''Error: q is not defined'' 1)) = 1"
proof -
  let ?tks = "[ident ''x'', symbol EQ, number 5, symbol SEMICOLON,
                     symbol PRINT, symbol LPAREN, ident ''x'', symbol RPAREN, symbol SEMICOLON,
                     symbol PRINT, symbol LPAREN, ident ''q'', symbol RPAREN, symbol SEMICOLON,
                     symbol PRINT, symbol LPAREN, number 1, symbol RPAREN, symbol SEMICOLON]"
  let ?s1 = "p_stmt_assign (PyStr ''x'') (p_expr_number (PyInt 5))"
  let ?s2 = "p_stmt_print (p_expr_ident (PyStr ''x''))"
  let ?s3 = "p_stmt_print (p_expr_ident (PyStr ''q''))"
  let ?s4 = "p_stmt_print (p_expr_number (PyInt 1))"
  let ?st = "\<lparr>variables = [PyStr ''x'' \<mapsto> PyInt 5], stdout = [''[[ processing a.bx ]]'', ''5'']\<rparr>"
  let ?e = "SystemExit ''Error: q is not defined'' 1"
  note inst = undefined_variable_is_fatal
    [where st = ?st and name = "''q''" and ks = "[]" and e = "p_expr_ident (PyStr ''q'')"
       and s = ?s3 and rest = "build_program [?s4]" and line = "''Error: q is not defined''"
       and c = 1]
  have p: "parse ?tks = Inr (build_program [?s1, ?s2, ?s3, ?s4])"
    by (simp add: parse_def ident_def number_def symbol_def starts_stmt_def starts_expr_def
        after_expr_def after_token_def follows_expr_def binary_op_def prefix_op_def)
  have d: "str_int 5 = ''5''" by code_simp
  have u: "variables ?st (PyStr ''q'') = None" by simp
  have e: "evaluate_expression (variables ?st) (p_expr_ident (PyStr ''q'')) = Inl ?e"
    using inst u by (simp add: p_expr_ident_def)
  have s: "process_stmt ?st ?s3 = Inl ?e"
    using inst e by blast
  have r3: "run_statements ?st (p_program ?s3 (build_program [?s4])) =
         (?st\<lparr>stdout := stdout ?st @ [''Error: q is not defined'']\<rparr>, Some ?e)"
    using inst s by blast
  have r: "run_file ([] @ [''[[ processing '' @ ''a.bx'' @ '' ]]'']) ?tks =
         (?st\<lparr>stdout := stdout ?st @ [''Error: q is not defined'']\<rparr>, Some ?e)"
    unfolding run_file_def p
    using r3
    by (simp add: run_statements_build p_stmt_assign_def p_stmt_print_def p_expr_number_def
        p_expr_ident_def py_str_def d p_program_def)
  have "main_from [] ((''a.bx'', ?tks) # [(''b.bx'',
          [symbol PRINT, symbol LPAREN, number 7, symbol RPAREN, symbol SEMICOLON])]) =
        (stdout (?st\<lparr>stdout := stdout ?st @ [''Error: q is not defined'']\<rparr>), Some ?e)"
    using undefined_variable_is_fatal
      [where out = "[]" and filename = "''a.bx''" and tks = ?tks
         and st' = "?st\<lparr>stdout := stdout ?st @ [''Error: q is not defined'']\<rparr>"
         and line = "''Error: q is not defined''" and c = 1] r
    by blast
  then show ?thesis by (simp add: main_def)
qed

text \<open>
  Claim C8. When the right operand of \<open>/\<close> or \<open>%\<close> evaluates to 0, the evaluation never
  returns a value. Once the left operand has returned, so that the division is reached,
  the fault is an uncaught Python exception, \<open>ZeroDivisionError\<close> for an integer on the
  left: the statement and the statement loop pass it on, no later statement runs, the
  state and the output stay as they were (the program writes no message of its own), and
  the process ends with status 1.
\<close>

theorem division_by_zero_is_uncaught:
  assumes "op = ''/'' \<or> op = ''%''"
    and "evaluate_expression (variables st) r = Inr (PyInt 0)"
  shows "(\<exists>e. evaluate_expression (variables st) (PyNode ''binop'' (PyStr op) [l, r]) = Inl e)
       \<and> (evaluate_expression (variables st) l = Inr a \<longrightarrow>
            (\<exists>e. evaluate_expression (variables st) (PyNode ''binop'' (PyStr op) [l, r]) = Inl e
               \<and> (e = ZeroDivisionError \<or> e = OperandError)
               \<and> (is_PyInt a \<longrightarrow> e = ZeroDivisionError)
               \<and> process_stmt st (p_stmt_print (PyNode ''binop'' (PyStr op) [l, r])) = Inl e
               \<and> process_stmt st (p_stmt_assign target (PyNode ''binop'' (PyStr op) [l, r]))
                    = Inl e
               \<and> run_statements st
                    (p_program (p_stmt_print (PyNode ''binop'' (PyStr op) [l, r])) rest)
                    = (st, Some e)
               \<and> run_statements st
                    (p_program (p_stmt_assign target (PyNode ''binop'' (PyStr op) [l, r])) rest)
                    = (st, Some e)
               \<and> fault_output e = []
               \<and> exit_status (Some e) = 1))"
proof (intro conjI impI)
  note z = eval_division_by_zero [OF assms, of l]
  show "\<exists>e. evaluate_expression (variables st) (PyNode ''binop'' (PyStr op) [l, r]) = Inl e"
    unfolding z by (simp split: sum.splits pyval.splits)
  assume a: "evaluate_expression (variables st) l = Inr a"
  define e where "e = (if is_PyInt a then ZeroDivisionError else OperandError)"
  have v: "evaluate_expression (variables st) (PyNode ''binop'' (PyStr op) [l, r]) = Inl e"
    unfolding z a e_def by (cases a) simp_all
  have o: "fault_output e = []" "exit_status (Some e) = 1" "e = ZeroDivisionError \<or> e = OperandError"
    "is_PyInt a \<longrightarrow> e = ZeroDivisionError"
    by (simp_all add: e_def)
  have p: "process_stmt st (p_stmt_print (PyNode ''binop'' (PyStr op) [l, r])) = Inl e"
    "process_stmt st (p_stmt_assign target (PyNode ''binop'' (PyStr op) [l, r])) = Inl e"
    using process_stmt_fault [OF v] by simp_all
  have "run_statements st (p_program (p_stmt_print (PyNode ''binop'' (PyStr op) [l, r])) rest)
          = (st, Some e)"
    "run_statements st (p_program (p_stmt_assign target (PyNode ''binop'' (PyStr op) [l, r])) rest)
          = (st, Some e)"
    using run_statements_fault [OF p(1), of rest] run_statements_fault [OF p(2), of rest] o(1)
    by simp_all
  with v o p show "\<exists>e. evaluate_expression (variables st) (PyNode ''binop'' (PyStr op) [l, r]) = Inl e
               \<and> (e = ZeroDivisionError \<or> e = OperandError)
               \<and> (is_PyInt a \<longrightarrow> e = ZeroDivisionError)
               \<and> process_stmt st (p_stmt_print (PyNode ''binop'' (PyStr op) [l, r])) = Inl e
               \<and> process_stmt st (p_stmt_assign target (PyNode ''binop'' (PyStr op) [l, r]))
                    = Inl e
               \<and> run_statements st
                    (p_program (p_stmt_print (PyNode ''binop'' (PyStr op) [l, r])) rest)
                    = (st, Some e)
               \<and> run_statements st
                    (p_program (p_stmt_assign target (PyNode ''binop'' (PyStr op) [l, r])) rest)
                    = (st, Some e)
               \<and> fault_output e = []
               \<and> exit_status (Some e) = 1"
    by blast
qed

theorem division_by_zero_is_uncaught_witness:
  "run_file [] [symbol PRINT, symbol LPAREN, number 3, symbol RPAREN, symbol SEMICOLON,
                symbol PRINT, symbol LPAREN, number 1, symbol SLASH, number 0, symbol RPAREN,
                symbol SEMICOLON,
                symbol PRINT, symbol LPAREN, number 4, symbol RPAREN, symbol SEMICOLON]
     = (\<lparr>variables = Map.empty, stdout = [''3'']\<rparr>, Some ZeroDivisionError)
   \<and> evaluate_expression Map.empty
       (PyNode ''binop'' (PyStr ''%'') [PyNode ''num'' (PyInt 1) [], PyNode ''num'' (PyInt 0) []])
     = Inl ZeroDivisionError
   \<and> exit_status (Some ZeroDivisionError) = 1"
proof -
  let ?tks = "[symbol PRINT, symbol LPAREN, number 3, symbol RPAREN, symbol SEMICOLON,
                symbol PRINT, symbol LPAREN, number 1, symbol SLASH, number 0, symbol RPAREN,
                symbol SEMICOLON,
                symbol PRINT, symbol LPAREN, number 4, symbol RPAREN, symbol SEMICOLON]"
  let ?st = "\<lparr>variables = Map.empty, stdout = [''3'']\<rparr>"
  let ?l = "PyNode ''num'' (PyInt 1) []"
  let ?r = "PyNode ''num'' (PyInt 0) []"
  let ?d = "PyNode ''binop'' (PyStr ''/'') [?l, ?r]"
  have h: "evaluate_expression (variables ?st) ?r = Inr (PyInt 0)"
    "evaluate_expression (variables ?st) ?l = Inr (PyInt 1)"
    by simp_all
  have p: "parse ?tks = Inr (build_program
      [p_stmt_print (p_expr_number (PyInt 3)), p_stmt_print ?d, p_stmt_print (p_expr_number (PyInt 4))])"
    by (simp add: parse_def ident_def number_def symbol_def starts_stmt_def starts_expr_def
        after_expr_def after_token_def follows_expr_def binary_op_def prefix_op_def
        p_expr_binop_def p_expr_number_def)
  have d: "str_int 3 = ''3''" by code_simp
  from division_by_zero_is_uncaught
    [where op = "''/''" and st = ?st and r = ?r and l = ?l and a = "PyInt 1"
       and rest = "build_program [p_stmt_print (p_expr_number (PyInt 4))]"] h
  have r2: "run_statements ?st (p_program (p_stmt_print ?d)
              (build_program [p_stmt_print (p_expr_number (PyInt 4))])) = (?st, Some ZeroDivisionError)"
    by auto
  have r: "run_file [] ?tks = (?st, Some ZeroDivisionError)"
    unfolding run_file_def p using r2
    by (simp add: p_program_def p_stmt_print_def p_expr_number_def py_str_def d)
  from division_by_zero_is_uncaught
    [where op = "''%''" and st = "\<lparr>variables = Map.empty, stdout = []\<rparr>" and r = ?r
       and l = ?l and a = "PyInt 1"]
  have m: "evaluate_expression Map.empty (PyNode ''binop'' (PyStr ''%'') [?l, ?r]) = Inl ZeroDivisionError"
    by auto
  show ?thesis using r m by simp
qed

subsection \<open>Precedence in the parser\<close>

lemma token_prec_values:
  "token_prec BAR = (''left'', 1)" "token_prec CARET = (''left'', 2)"
  "token_prec AMP = (''left'', 3)" "token_prec LTLT = (''left'', 4)"
  "token_prec GTGT = (''left'', 4)" "token_prec PLUS = (''left'', 5)"
  "token_prec MINUS = (''left'', 5)" "token_prec STAR = (''left'', 6)"
  "token_prec SLASH = (''left'', 6)" "token_prec PERCENT = (''left'', 6)"
  "token_prec UMINUS = (''left'', 7)" "token_prec TILDE = (''left'', 8)"
  by (simp_all add: token_prec_def precedence_def)

lemma binary_op_cases:
  "binary_op t \<Longrightarrow>
   t = PLUS \<or> t = MINUS \<or> t = STAR \<or> t = SLASH \<or> t = PERCENT
   \<or> t = AMP \<or> t = BAR \<or> t = CARET \<or> t = LTLT \<or> t = GTGT"
  by (simp add: binary_op_def)

lemma binary_op_prec:
  "binary_op t \<Longrightarrow> fst (token_prec t) = ''left'' \<and> 1 \<le> snd (token_prec t) \<and> snd (token_prec t) \<le> 6"
  by (drule binary_op_cases) (auto simp: token_prec_values)

lemma prefers_reduce_binop:
  "binary_op op \<Longrightarrow>
   prefers_reduce (binop_rule_prec op) la = (snd (token_prec la) \<le> snd (token_prec op))"
  using binary_op_prec [of op]
  by (cases "token_prec op"; cases "token_prec la")
     (auto simp: prefers_reduce_def binop_rule_prec_def)

lemma prefers_reduce_unop:
  "prefix_op op \<Longrightarrow> binary_op la \<Longrightarrow> prefers_reduce (unop_rule_prec op) la"
  using binary_op_prec [of la]
  by (cases "token_prec la")
     (auto simp: prefers_reduce_def unop_rule_prec_def prefix_op_def token_prec_values)

lemma binary_op_not_other:
  "binary_op t \<Longrightarrow> t \<noteq> IDENT \<and> t \<noteq> NUMBER \<and> t \<noteq> PRINT \<and> t \<noteq> EQ \<and> t \<noteq> SEMICOLON
     \<and> t \<noteq> LPAREN \<and> t \<noteq> RPAREN \<and> t \<noteq> TILDE \<and> t \<noteq> UMINUS"
  by (auto simp: binary_op_def)

lemma after_token_binary:
  "binary_op t0 \<Longrightarrow> after_token t0 st t v = starts_expr st t v"
  using binary_op_not_other [of t0] by (simp add: after_token_def)

lemma after_expr_binary:
  "binary_op t \<Longrightarrow> after_expr e rest t v = Some (TOK t v # EXPR e # rest)"
  by (simp add: after_expr_def)

lemma follows_expr_binary: "binary_op t \<Longrightarrow> follows_expr t"
  by (simp add: follows_expr_def)

lemma binary_op_fixed:
  "binary_op MINUS" "\<not> binary_op TILDE" "\<not> binary_op UMINUS" "\<not> binary_op IDENT"
  "\<not> binary_op NUMBER" "\<not> binary_op SEMICOLON" "\<not> binary_op RPAREN"
  "\<not> binary_op LPAREN" "\<not> binary_op EQ" "\<not> binary_op PRINT"
  by (simp_all add: binary_op_def)

lemma prefix_op_fixed:
  "prefix_op MINUS" "prefix_op TILDE" "prefix_op UMINUS" "\<not> prefix_op IDENT"
  "\<not> prefix_op NUMBER" "\<not> prefix_op SEMICOLON" "\<not> prefix_op RPAREN"
  "\<not> prefix_op LPAREN" "\<not> prefix_op EQ" "\<not> prefix_op PRINT"
  by (simp_all add: prefix_op_def)

lemma two_operators:
  assumes "binary_op o1" and "binary_op o2"
  shows "parse_from (EXPR a # TOK EQ ev # TOK IDENT s # stk)
           (Token o1 v1 # Token IDENT b # Token o2 v2 # Token IDENT c # Token SEMICOLON sv # tks) =
         parse_from
           (STMT (p_stmt_assign s
              (if snd (token_prec o1) < snd (token_prec o2)
               then p_expr_binop a v1 (p_expr_binop (p_expr_ident b) v2 (p_expr_ident c))
               else p_expr_binop (p_expr_binop a v1 (p_expr_ident b)) v2 (p_expr_ident c))) # stk)
           tks"
  using assms binary_op_not_other [of o1] binary_op_not_other [of o2]
  by (simp add: prefers_reduce_binop after_token_binary after_expr_binary follows_expr_binary
      starts_expr_def) (simp add: after_expr_def follows_expr_def binary_op_def prefix_op_def)


lemma two_operators_print:
  assumes "binary_op o1" and "binary_op o2"
  shows "parse_from (EXPR a # TOK LPAREN lv # TOK PRINT pv # stk)
           (Token o1 v1 # Token IDENT b # Token o2 v2 # Token IDENT c # Token RPAREN rv
              # Token SEMICOLON sv # tks) =
         parse_from
           (STMT (p_stmt_print
              (if snd (token_prec o1) < snd (token_prec o2)
               then p_expr_binop a v1 (p_expr_binop (p_expr_ident b) v2 (p_expr_ident c))
               else p_expr_binop (p_expr_binop a v1 (p_expr_ident b)) v2 (p_expr_ident c))) # stk)
           tks"
  using assms binary_op_not_other [of o1] binary_op_not_other [of o2]
  by (simp add: prefers_reduce_binop after_token_binary after_expr_binary follows_expr_binary
      starts_expr_def)
     (simp add: after_expr_def after_token_def follows_expr_def binary_op_def prefix_op_def)

lemma parse_start_assign:
  "parse (Token IDENT s # Token EQ ev # Token IDENT a # tks) =
     parse_from [EXPR (p_expr_ident a), TOK EQ ev, TOK IDENT s] tks"
  by (simp add: parse_def starts_stmt_def after_token_def starts_expr_def)

lemma parse_start_print:
  "parse (Token PRINT pv # Token LPAREN lv # Token IDENT a # tks) =
     parse_from [EXPR (p_expr_ident a), TOK LPAREN lv, TOK PRINT pv] tks"
  by (simp add: parse_def starts_stmt_def after_token_def starts_expr_def)

lemma prefix_then_operator:
  assumes "binary_op o1" and "u = MINUS \<or> u = TILDE \<or> u = UMINUS"
  shows "parse_from (TOK EQ ev # TOK IDENT s # stk)
           (Token u uv # Token IDENT a # Token o1 v1 # tks) =
         parse_from (TOK o1 v1 # EXPR (p_expr_unop uv (p_expr_ident a)) # TOK EQ ev # TOK IDENT s # stk) tks"
  using assms(2) assms(1) binary_op_not_other [of o1]
  by (elim disjE)
     (simp_all add: after_token_def starts_expr_def prefers_reduce_unop follows_expr_binary
        after_expr_binary binary_op_fixed prefix_op_fixed)

lemma prefix_then_end:
  assumes "u = MINUS \<or> u = TILDE \<or> u = UMINUS" and "binary_op o1"
  shows "parse_from (TOK o1 v1 # EXPR x # TOK EQ ev # TOK IDENT s # stk)
           (Token u uv # Token IDENT b # Token SEMICOLON sv # tks) =
         parse_from (STMT (p_stmt_assign s (p_expr_binop x v1 (p_expr_unop uv (p_expr_ident b)))) # stk) tks"
  using assms(1) assms(2) binary_op_not_other [of o1]
  by (elim disjE)
     (simp_all add: after_token_binary after_token_def starts_expr_def follows_expr_def
        after_expr_def binary_op_fixed prefix_op_fixed)

lemma operand_then_end:
  assumes "binary_op o1"
  shows "parse_from (TOK o1 v1 # EXPR x # TOK EQ ev # TOK IDENT s # stk)
           (Token IDENT b # Token SEMICOLON sv # tks) =
         parse_from (STMT (p_stmt_assign s (p_expr_binop x v1 (p_expr_ident b))) # stk) tks"
  using assms
  by (simp add: after_token_binary starts_expr_def follows_expr_def)
     (simp add: after_expr_def binary_op_def prefix_op_def)

text \<open>
  Claim C2, as amended. The precedence levels rise in the order \<open>|\<close>, \<open>^\<close>, \<open>&\<close>,
  \<open><< >>\<close>, \<open>+ -\<close>, \<open>* / %\<close>. For any two binary operators and any identifiers,
  the statement \<open>s = a o1 b o2 c;\<close> and the statement \<open>print(a o1 b o2 c);\<close> carry the
  expression \<open>a o1 (b o2 c)\<close> when the level of \<open>o1\<close> is below that of \<open>o2\<close>, and
  \<open>(a o1 b) o2 c\<close> otherwise; so \<open>s = a + b | c;\<close> carries
  \<open>BinOp(|, BinOp(+, Var(a), Var(b)), Var(c))\<close>. The amendment: the expression stands in
  an assignment or a \<open>print\<close>, the only statements of the grammar.
\<close>

theorem bitwise_binds_looser_than_arithmetic:
  assumes "binary_op o1" and "binary_op o2"
  shows "parse [Token IDENT s, Token EQ ev, Token IDENT a, Token o1 v1, Token IDENT b,
                Token o2 v2, Token IDENT c, Token SEMICOLON sv] =
           Inr (build_program [p_stmt_assign s
              (if snd (token_prec o1) < snd (token_prec o2)
               then p_expr_binop (p_expr_ident a) v1 (p_expr_binop (p_expr_ident b) v2 (p_expr_ident c))
               else p_expr_binop (p_expr_binop (p_expr_ident a) v1 (p_expr_ident b)) v2 (p_expr_ident c))])
       \<and> parse [Token PRINT pv, Token LPAREN lv, Token IDENT a, Token o1 v1, Token IDENT b,
                Token o2 v2, Token IDENT c, Token RPAREN rv, Token SEMICOLON sv] =
           Inr (build_program [p_stmt_print
              (if snd (token_prec o1) < snd (token_prec o2)
               then p_expr_binop (p_expr_ident a) v1 (p_expr_binop (p_expr_ident b) v2 (p_expr_ident c))
               else p_expr_binop (p_expr_binop (p_expr_ident a) v1 (p_expr_ident b)) v2 (p_expr_ident c))])
       \<and> snd (token_prec BAR) < snd (token_prec CARET)
       \<and> snd (token_prec CARET) < snd (token_prec AMP)
       \<and> snd (token_prec AMP) < snd (token_prec LTLT)
       \<and> snd (token_prec LTLT) = snd (token_prec GTGT)
       \<and> snd (token_prec GTGT) < snd (token_prec PLUS)
       \<and> snd (token_prec PLUS) = snd (token_prec MINUS)
       \<and> snd (token_prec MINUS) < snd (token_prec STAR)
       \<and> snd (token_prec STAR) = snd (token_prec SLASH)
       \<and> snd (token_prec SLASH) = snd (token_prec PERCENT)"
  by (simp only: parse_start_assign parse_start_print two_operators [OF assms]
        two_operators_print [OF assms])
     (simp add: token_prec_values)

theorem bitwise_binds_looser_than_arithmetic_witness:
  "parse [ident ''s'', symbol EQ, ident ''a'', symbol PLUS, ident ''b'', symbol BAR, ident ''c'',
          symbol SEMICOLON] =
     Inr (PyNode ''statements'' PyNone
           [PyNode ''assign'' (PyStr ''='')
              [PyStr ''s'',
               PyNode ''binop'' (PyStr ''|'')
                 [PyNode ''binop'' (PyStr ''+'')
                    [PyNode ''var'' (PyStr ''a'') [], PyNode ''var'' (PyStr ''b'') []],
                  PyNode ''var'' (PyStr ''c'') []]],
            PyNode ''statements'' PyNone []])
   \<and> parse [symbol PRINT, symbol LPAREN, ident ''a'', symbol PLUS, ident ''b'', symbol BAR,
            ident ''c'', symbol RPAREN, symbol SEMICOLON] =
     Inr (PyNode ''statements'' PyNone
           [PyNode ''print''
              (PyNode ''binop'' (PyStr ''|'')
                 [PyNode ''binop'' (PyStr ''+'')
                    [PyNode ''var'' (PyStr ''a'') [], PyNode ''var'' (PyStr ''b'') []],
                  PyNode ''var'' (PyStr ''c'') []]) [],
            PyNode ''statements'' PyNone []])"
proof -
  have b: "binary_op PLUS" "binary_op BAR" by (simp_all add: binary_op_def)
  show ?thesis
    using bitwise_binds_looser_than_arithmetic [OF b,
      of "PyStr ''s''" "PyStr ''=''" "PyStr ''a''" "PyStr ''+''" "PyStr ''b''" "PyStr ''|''"
         "PyStr ''c''" "PyStr '';''" "PyStr ''print''" "PyStr ''(''" "PyStr '')''"]
    by (simp add: ident_def symbol_def token_prec_values p_stmt_assign_def p_stmt_print_def
        p_expr_binop_def p_expr_ident_def p_program_def p_program_empty_def)
qed

text \<open>
  The input \<open>a + b | c;\<close> of the claim as stated is no statement of the grammar: after
  the identifier only \<open>=\<close> can follow, and the parser raises \<open>SyntaxError\<close> at \<open>+\<close>.
\<close>

theorem bare_expression_counterexample:
  "parse [ident ''a'', symbol PLUS, ident ''b'', symbol BAR, ident ''c'', symbol SEMICOLON]
     = Inl (SyntaxError PLUS)"
  by (simp add: parse_def ident_def symbol_def starts_stmt_def after_token_def)

text \<open>
  Claim C6, as amended. Prefix minus has a level above every binary operator and below
  that of \<open>~\<close>. For every binary operator and all identifiers, \<open>s = - a o b;\<close> carries
  \<open>BinOp(o, UnOp(-, Var(a)), Var(b))\<close>, likewise with \<open>~\<close> for the prefix minus, and
  \<open>s = - a o - b;\<close> carries \<open>BinOp(o, UnOp(-, Var(a)), UnOp(-, Var(b)))\<close>; so
  \<open>s = - w - - w;\<close> carries \<open>BinOp(-, UnOp(-, Var(w)), UnOp(-, Var(w)))\<close>. The amendment:
  the expression stands in an assignment.
\<close>

theorem unary_minus_binds_tighter_than_binary:
  assumes "binary_op o1"
  shows "parse [Token IDENT s, Token EQ ev, Token MINUS mv, Token IDENT a, Token o1 v1,
                Token IDENT b, Token SEMICOLON sv] =
           Inr (build_program [p_stmt_assign s
              (p_expr_binop (p_expr_unop mv (p_expr_ident a)) v1 (p_expr_ident b))])
       \<and> parse [Token IDENT s, Token EQ ev, Token TILDE tv, Token IDENT a, Token o1 v1,
                Token IDENT b, Token SEMICOLON sv] =
           Inr (build_program [p_stmt_assign s
              (p_expr_binop (p_expr_unop tv (p_expr_ident a)) v1 (p_expr_ident b))])
       \<and> parse [Token IDENT s, Token EQ ev, Token MINUS mv, Token IDENT a, Token o1 v1,
                Token MINUS mv', Token IDENT b, Token SEMICOLON sv] =
           Inr (build_program [p_stmt_assign s
              (p_expr_binop (p_expr_unop mv (p_expr_ident a)) v1
                 (p_expr_unop mv' (p_expr_ident b)))])
       \<and> snd (token_prec o1) < snd (unop_rule_prec MINUS)
       \<and> snd (unop_rule_prec MINUS) < snd (unop_rule_prec TILDE)"
proof -
  have s: "parse (Token IDENT s # Token EQ ev # tks) = parse_from [TOK EQ ev, TOK IDENT s] tks" for tks
    by (simp add: parse_def starts_stmt_def after_token_def)
  have l: "snd (token_prec o1) < snd (unop_rule_prec MINUS)"
    "snd (unop_rule_prec MINUS) < snd (unop_rule_prec TILDE)"
    using binary_op_prec [OF assms] by (simp_all add: unop_rule_prec_def token_prec_values)
  show ?thesis
    by (simp only: s prefix_then_operator [OF assms] prefix_then_end [OF _ assms]
          operand_then_end [OF assms] simp_thms l)
       (simp add: p_program_def)
qed

theorem unary_minus_binds_tighter_than_binary_witness:
  "parse [ident ''s'', symbol EQ, symbol MINUS, ident ''w'', symbol MINUS, symbol MINUS,
          ident ''w'', symbol SEMICOLON] =
     Inr (PyNode ''statements'' PyNone
           [PyNode ''assign'' (PyStr ''='')
              [PyStr ''s'',
               PyNode ''binop'' (PyStr ''-'')
                 [PyNode ''unop'' (PyStr ''-'') [PyNode ''var'' (PyStr ''w'') []],
                  PyNode ''unop'' (PyStr ''-'') [PyNode ''var'' (PyStr ''w'') []]]],
            PyNode ''statements'' PyNone []])"
proof -
  have b: "binary_op MINUS" by (simp add: binary_op_def)
  show ?thesis
    using unary_minus_binds_tighter_than_binary [OF b,
      of "PyStr ''s''" "PyStr ''=''" "PyStr ''-''" "PyStr ''w''" "PyStr ''-''" "PyStr ''w''"
         "PyStr '';''" "PyStr ''~''" "PyStr ''-''"]
    by (simp add: ident_def symbol_def p_stmt_assign_def p_expr_binop_def p_expr_unop_def
        p_expr_ident_def p_program_def p_program_empty_def)
qed

text \<open>
  The input \<open>- w - - w;\<close> of the claim as stated is no statement of the grammar: a
  statement starts with an identifier or \<open>print\<close>, and the parser raises \<open>SyntaxError\<close>
  at the first \<open>-\<close>.
\<close>

theorem bare_unary_expression_counterexample:
  "parse [symbol MINUS, ident ''w'', symbol MINUS, symbol MINUS, ident ''w'', symbol SEMICOLON]
     = Inl (SyntaxError MINUS)"
  by (simp add: parse_def ident_def symbol_def starts_stmt_def)

subsection \<open>The nodes the parser builds\<close>

lemma reduce_exprs_ok:
  "list_all (sym_ok N) st \<Longrightarrow> list_all (sym_ok N) (reduce_exprs la st)"
  by (induction la st rule: reduce_exprs.induct)
     (auto simp: p_expr_binop_def p_expr_unop_def)

lemma starts_expr_ok:
  "list_all (sym_ok N) st \<Longrightarrow> starts_expr st t v = Some st' \<Longrightarrow> list_all (sym_ok N) st'"
  by (auto simp: starts_expr_def p_expr_ident_def p_expr_number_def prefix_op_def
      split: if_splits)

lemma starts_stmt_ok:
  "list_all (sym_ok N) st \<Longrightarrow> (t = IDENT \<Longrightarrow> v \<in> set N) \<Longrightarrow>
   starts_stmt st t v = Some st' \<Longrightarrow> list_all (sym_ok N) st'"
  by (auto simp: starts_stmt_def split: if_splits)

lemma after_expr_ok:
  "list_all (sym_ok N) (EXPR e # rest) \<Longrightarrow> after_expr e rest t v = Some st' \<Longrightarrow>
   list_all (sym_ok N) st'"
  by (auto simp: after_expr_def binary_op_def p_expr_parens_def p_stmt_assign_def
      statement_shape_def assign_node_def
      split: if_splits list.splits sym.splits tok_type.splits)

lemma after_token_ok:
  "list_all (sym_ok N) st \<Longrightarrow> (t = IDENT \<Longrightarrow> v \<in> set N) \<Longrightarrow>
   after_token t0 st t v = Some st' \<Longrightarrow> list_all (sym_ok N) st'"
  by (auto simp: after_token_def p_stmt_print_def statement_shape_def print_node_def
      dest: starts_expr_ok
      split: if_splits list.splits sym.splits tok_type.splits)

lemma shift_ok:
  "list_all (sym_ok N) st \<Longrightarrow> (t = IDENT \<Longrightarrow> v \<in> set N) \<Longrightarrow>
   shift st (Token t v) = Some st' \<Longrightarrow> list_all (sym_ok N) st'"
proof (induction st "Token t v" rule: shift.induct)
  case 1
  then show ?case using starts_stmt_ok [where N = N and st = "[]" and t = t and v = v and st' = st'] by simp
next
  case (2 s rest)
  then show ?case using starts_stmt_ok [where N = N and st = "STMT s # rest" and t = t and v = v and st' = st'] by simp
next
  case (3 e rest)
  then show ?case using after_expr_ok [where N = N and e = e and rest = rest and t = t and v = v and st' = st'] by simp
next
  case (4 t0 tv rest)
  then show ?case using after_token_ok [where N = N and st = "TOK t0 tv # rest" and t = t and v = v and st' = st' and ?t0.0 = t0] by simp
qed

lemma stmts_of_stack_ok:
  "list_all (sym_ok N) st \<Longrightarrow> stmts_of_stack st = Some ss \<Longrightarrow> list_all (statement_shape N) ss"
  by (induction st arbitrary: ss rule: stmts_of_stack.induct) (auto split: option.splits)

lemma parse_from_ok:
  "list_all (sym_ok N) st \<Longrightarrow> list_all (\<lambda>tk. ttype tk = IDENT \<longrightarrow> tvalue tk \<in> set N) tks \<Longrightarrow>
   parse_from st tks = Inr prog \<Longrightarrow> list_all (statement_shape N) (program_statements prog)"
proof (induction tks arbitrary: st)
  case Nil
  then show ?case
    by (auto simp: program_statements_build split: option.splits dest: stmts_of_stack_ok)
next
  case (Cons tk tks)
  obtain t v where tk: "tk = Token t v" by (cases tk)
  from Cons.prems(3) obtain st' where
    s: "shift (reduce_exprs t st) (Token t v) = Some st'" and p: "parse_from st' tks = Inr prog"
    by (auto simp: tk split: option.splits)
  have "list_all (sym_ok N) st'"
    using shift_ok [OF reduce_exprs_ok [OF Cons.prems(1)] _ s] Cons.prems(2) by (simp add: tk)
  then show ?case using Cons.IH [OF _ _ p] Cons.prems(2) by simp
qed

lemma ident_values_cover:
  "list_all (\<lambda>tk. ttype tk = IDENT \<longrightarrow> tvalue tk \<in> set (ident_values tks)) tks"
  by (auto simp: ident_values_def list_all_iff)


text \<open>
  Claim C5, as amended. Every statement of a program the parser returns is a node of one
  of two shapes. A \<open>print\<close> node carries the printed expression as its payload
  (\<open>value\<close>) and has no children. An \<open>assign\<close> node carries the string \<open>=\<close> as its
  payload and has exactly two children: the target, which is the value of an identifier
  token of the input, and the value expression. These are the nodes the actions
  \<open>p_stmt_print\<close> and \<open>p_stmt_assign\<close> build.
\<close>

theorem statement_nodes_have_their_shape:
  assumes "parse tks = Inr prog"
  shows "list_all
           (\<lambda>s. is_PyNode s
              \<and> (opcode s = ''print'' \<and> expr_node (nvalue s) \<and> kids s = []
                 \<or> opcode s = ''assign'' \<and> nvalue s = PyStr ''='' \<and> length (kids s) = 2
                    \<and> kids s ! 0 \<in> set (ident_values tks) \<and> expr_node (kids s ! 1)))
           (program_statements prog)
       \<and> nvalue (p_stmt_print e) = e \<and> kids (p_stmt_print e) = []
       \<and> nvalue (p_stmt_assign name e) = PyStr ''='' \<and> kids (p_stmt_assign name e) = [name, e]"
proof -
  have "list_all (statement_shape (ident_values tks)) (program_statements prog)"
    using parse_from_ok [of "ident_values tks" "[]" tks prog] ident_values_cover [of tks] assms
    by (simp add: parse_def)
  then have "list_all
           (\<lambda>s. is_PyNode s
              \<and> (opcode s = ''print'' \<and> expr_node (nvalue s) \<and> kids s = []
                 \<or> opcode s = ''assign'' \<and> nvalue s = PyStr ''='' \<and> length (kids s) = 2
                    \<and> kids s ! 0 \<in> set (ident_values tks) \<and> expr_node (kids s ! 1)))
           (program_statements prog)"
    by (rule list.pred_mono_strong)
       (auto simp: statement_shape_def print_node_def assign_node_def)
  then show ?thesis by (simp add: p_stmt_print_def p_stmt_assign_def)
qed

theorem statement_nodes_have_their_shape_witness:
  "parse [ident ''x'', symbol EQ, number 1, symbol SEMICOLON,
          symbol PRINT, symbol LPAREN, ident ''x'', symbol RPAREN, symbol SEMICOLON]
     = Inr (build_program
         [PyNode ''assign'' (PyStr ''='') [PyStr ''x'', PyNode ''num'' (PyInt 1) []],
          PyNode ''print'' (PyNode ''var'' (PyStr ''x'') []) []])
   \<and> list_all
        (\<lambda>s. is_PyNode s
           \<and> (opcode s = ''print'' \<and> expr_node (nvalue s) \<and> kids s = []
              \<or> opcode s = ''assign'' \<and> nvalue s = PyStr ''='' \<and> length (kids s) = 2
                 \<and> kids s ! 0 \<in> set [PyStr ''x'', PyStr ''x''] \<and> expr_node (kids s ! 1)))
        [PyNode ''assign'' (PyStr ''='') [PyStr ''x'', PyNode ''num'' (PyInt 1) []],
         PyNode ''print'' (PyNode ''var'' (PyStr ''x'') []) []]"
proof -
  let ?tks = "[ident ''x'', symbol EQ, number 1, symbol SEMICOLON,
          symbol PRINT, symbol LPAREN, ident ''x'', symbol RPAREN, symbol SEMICOLON]"
  let ?ss = "[PyNode ''assign'' (PyStr ''='') [PyStr ''x'', PyNode ''num'' (PyInt 1) []],
          PyNode ''print'' (PyNode ''var'' (PyStr ''x'') []) []]"
  have p: "parse ?tks = Inr (build_program ?ss)"
    by (simp add: parse_def ident_def number_def symbol_def starts_stmt_def starts_expr_def
        after_expr_def after_token_def follows_expr_def binary_op_def prefix_op_def
        p_stmt_assign_def p_stmt_print_def p_expr_ident_def p_expr_number_def)
  have i: "ident_values ?tks = [PyStr ''x'', PyStr ''x'']"
    by (simp add: ident_values_def ident_def number_def symbol_def)
  from statement_nodes_have_their_shape [OF p]
  have "list_all
        (\<lambda>s. is_PyNode s
           \<and> (opcode s = ''print'' \<and> expr_node (nvalue s) \<and> kids s = []
              \<or> opcode s = ''assign'' \<and> nvalue s = PyStr ''='' \<and> length (kids s) = 2
                 \<and> kids s ! 0 \<in> set (ident_values ?tks) \<and> expr_node (kids s ! 1)))
        (program_statements (build_program ?ss))"
    by blast
  then show ?thesis
    using p by (simp only: program_statements_build i simp_thms)
qed

text \<open>
  The claim as stated fails on \<open>x = 1; print(x);\<close>: the \<open>print\<close> node has a payload and
  no child, the \<open>assign\<close> node has the payload \<open>=\<close>, not the name, and two children.
\<close>

theorem print_and_assign_shape_counterexample:
  "parse [ident ''x'', symbol EQ, number 1, symbol SEMICOLON,
          symbol PRINT, symbol LPAREN, ident ''x'', symbol RPAREN, symbol SEMICOLON]
     = Inr (PyNode ''statements'' PyNone
             [PyNode ''assign'' (PyStr ''='') [PyStr ''x'', PyNode ''num'' (PyInt 1) []],
              PyNode ''statements'' PyNone
                [PyNode ''print'' (PyNode ''var'' (PyStr ''x'') []) [],
                 PyNode ''statements'' PyNone []]])
   \<and> nvalue (PyNode ''print'' (PyNode ''var'' (PyStr ''x'') []) []) \<noteq> PyNone
   \<and> length (kids (PyNode ''print'' (PyNode ''var'' (PyStr ''x'') []) [])) \<noteq> 1
   \<and> nvalue (PyNode ''assign'' (PyStr ''='') [PyStr ''x'', PyNode ''num'' (PyInt 1) []])
        \<noteq> PyStr ''x''
   \<and> length (kids (PyNode ''assign'' (PyStr ''='') [PyStr ''x'', PyNode ''num'' (PyInt 1) []]))
        \<noteq> 1"
  by (simp add: parse_def ident_def number_def symbol_def starts_stmt_def starts_expr_def
      after_expr_def after_token_def follows_expr_def binary_op_def prefix_op_def
      p_stmt_assign_def p_stmt_print_def p_expr_ident_def p_expr_number_def p_program_def
      p_program_empty_def)

end
